theory Spec2Isabelle
  imports Main "HOL-Library.AList"
begin

section \<open>The workspace editing service of the workbench\<close>

text \<open>
  A shallow embedding of the class \<open>WorkspaceEditingService\<close>
  (\<open>vs/workbench/services/workspace/node/workspaceEditingService.ts\<close>).

  The service owns no data of its own: every method reads from and calls into the services
  injected by the constructor. A value of type \<open>world\<close> holds, for one call of a
  method, everything those services answer: what a getter returns, and for every method
  that returns a promise whether that promise is fulfilled (and with what) or rejected.
  A method of the service is then a function from the world and its arguments to

    \<^item> the list of calls it made on its collaborators, in program order (the trace), and
    \<^item> the outcome of the promise it returns: \<open>Inr v\<close> fulfilled, \<open>Inl e\<close> rejected.

  Getters that only read (\<open>getWorkspace\<close>, \<open>getWorkbenchState\<close>,
  \<open>getConfiguration\<close>, \<open>keys\<close>, \<open>inspect\<close>, the environment's fields) leave
  no entry in the trace.
\<close>

subsection \<open>Data\<close>

type_synonym uri = string

datatype WorkbenchState = EMPTY | FOLDER | WORKSPACE

text \<open>Only \<open>LOAD\<close> and \<open>CLOSE\<close> are named by the service; every other member
  of the enumeration is \<open>OTHER_REASON\<close>.\<close>

datatype ShutdownReason = CLOSE | LOAD | OTHER_REASON nat

text \<open>Modelled from the spec: the enumeration \<open>ConfigurationScope\<close> is declared in
  \<open>vs/platform/configuration/common/configurationRegistry\<close>; the service names only
  \<open>WINDOW\<close>, the spec (section 3) names machine, window and resource.\<close>

datatype ConfigurationScope = MACHINE | WINDOW | RESOURCE

text \<open>The service names two codes of \<open>JSONEditingErrorCode\<close>; any other code is
  \<open>ERROR_OTHER\<close>.\<close>

datatype JSONEditingErrorCode = ERROR_INVALID_FILE | ERROR_FILE_DIRTY | ERROR_OTHER nat

record JSONEditingError =
  code :: JSONEditingErrorCode
  message :: string

text \<open>What a promise is rejected with (a synchronous \<open>throw\<close> is not told apart from a
  rejection): \<open>null\<close>, an \<open>Error\<close> with its message, the error of a workspace
  edit, the \<open>TypeError\<close> of the runtime, or whatever a collaborator rejects with.\<close>

datatype error =
    RejectNull
  | Error string
  | EditError JSONEditingError
  | TypeError
  | External string

record IWorkspaceIdentifier =
  wid :: string
  configPath :: uri

record WorkspaceFolder =
  folder_uri :: uri
  folder_name :: string

record IWorkspaceFolderCreationData =
  uri :: uri
  name :: "string option"

record IConfigurationPropertySchema =
  scope :: "ConfigurationScope option"

text \<open>An entry of \<open>windowsService.getWindows()\<close>; only its \<open>workspace\<close> is read.\<close>

record window =
  window_id :: nat
  workspace :: "IWorkspaceIdentifier option"

record IEnterWorkspaceResult =
  result_workspace :: IWorkspaceIdentifier
  backupPath :: "uri option"

text \<open>A JavaScript object used as a dictionary: its keys in insertion order.
  \<open>obj[k] = v\<close> is \<^const>\<open>AList.update\<close>: it replaces the value of a key that is
  there and appends a new key.\<close>

type_synonym settings = "(string \<times> string) list"

datatype ConfirmResult = SAVE | DONT_SAVE | CANCEL

text \<open>The calls on collaborators. \<open>Unawaited t\<close> stands for a promise that was created
  and never awaited nor returned: the calls \<open>t\<close> it makes happen, at a time the caller does
  not wait for, and its outcome is dropped.\<close>

datatype event =
    StopExtensionHost
  | StartExtensionHost
  | ReloadWindow
  | HostEnterWorkspace uri
  | StorageMigrate IWorkspaceIdentifier
  | JsonWrite uri string settings bool
  | BackupInitialize "uri option"
  | ContextInitialize IWorkspaceIdentifier
  | ContextUpdateFolders "IWorkspaceFolderCreationData list" "uri list" "int option"
  | ContextAddFolders "IWorkspaceFolderCreationData list" "int option"
  | ContextRemoveFolders "uri list"
  | ResolveContent uri
  | CreateFile uri string bool
  | GetWindows
  | GetWindowCount
  | ShowMessageBox uri
  | DialogShow "ConfirmResult list" int
  | ShowSaveDialog
  | DeleteUntitledWorkspace IWorkspaceIdentifier
  | GetWorkspaceIdentifier uri
  | CreateUntitledWorkspace "IWorkspaceFolderCreationData list" "string option"
  | AddRecentlyOpened string IWorkspaceIdentifier
  | NotificationError string
  | NotificationPrompt string
  | Unawaited "event list"

type_synonym 'a promise = "event list \<times> (error + 'a)"

subsection \<open>The collaborators\<close>

record world =
  \<comment> \<open>\<open>contextService\<close>\<close>
  workbenchState :: WorkbenchState
  workspace_id :: string
  workspace_folders :: "WorkspaceFolder list"
  workspace_configuration :: "uri option"
  contextService_updateFolders ::
    "IWorkspaceFolderCreationData list \<Rightarrow> uri list \<Rightarrow> int option \<Rightarrow> JSONEditingError option"
  contextService_addFolders ::
    "IWorkspaceFolderCreationData list \<Rightarrow> int option \<Rightarrow> JSONEditingError option"
  contextService_removeFolders :: "uri list \<Rightarrow> JSONEditingError option"
  contextService_initialize :: "IWorkspaceIdentifier \<Rightarrow> bool \<times> error option"
  \<comment> \<open>\<open>windowService\<close>\<close>
  remoteAuthority :: "string option"
  windowService_enterWorkspace :: "uri \<Rightarrow> error + IEnterWorkspaceResult option"
  windowService_showMessageBox :: "error option"
  \<comment> \<open>\<open>windowsService\<close>\<close>
  windowsService_getWindowCount :: "error + int"
  windowsService_getWindows :: "error + window list"
  \<comment> \<open>\<open>workspaceService\<close>\<close>
  workspaceService_createUntitledWorkspace ::
    "IWorkspaceFolderCreationData list \<Rightarrow> string option \<Rightarrow> error + IWorkspaceIdentifier"
  workspaceService_getWorkspaceIdentifier :: "uri \<Rightarrow> error + IWorkspaceIdentifier"
  \<comment> \<open>\<open>fileSystemService\<close>\<close>
  fileSystemService_resolveContent :: "uri \<Rightarrow> error + string"
  fileSystemService_createFile :: "uri \<Rightarrow> string \<Rightarrow> error option"
  \<comment> \<open>\<open>storageService\<close>, \<open>jsonEditingService\<close>, \<open>backupFileService\<close>\<close>
  storageService_migrate :: "IWorkspaceIdentifier \<Rightarrow> error option"
  jsonEditingService_write :: "uri \<Rightarrow> settings \<Rightarrow> error option"
  backupFileService_is_BackupFileService :: bool
  \<comment> \<open>\<open>configurationService\<close> and the configuration registry\<close>
  configurationService_keys_workspace :: "string list"
  configurationService_inspect_workspace :: "string \<Rightarrow> string"
  configurationProperties :: "string \<Rightarrow> IConfigurationPropertySchema option"
  \<comment> \<open>\<open>environmentService\<close>\<close>
  untitledWorkspacesHome :: uri
  extensionTestsLocationURI :: "uri option"
  \<comment> \<open>\<open>dialogService\<close>, \<open>fileDialogService\<close>, \<open>labelService\<close>\<close>
  dialogService_show :: "error + int"
  fileDialogService_showSaveDialog :: "error + uri option"
  labelService_getWorkspaceLabel :: "IWorkspaceIdentifier \<Rightarrow> string"
  \<comment> \<open>\<open>vs/base/common/platform\<close>\<close>
  isWindows :: bool
  isLinux :: bool
  isMacintosh :: bool
  \<comment> \<open>\<open>vs/base/common/resources\<close> and \<open>vs/platform/workspaces/common/workspaces\<close>\<close>
  comparisonKey :: "uri \<Rightarrow> string"
  isEqualOrParent :: "uri \<Rightarrow> uri \<Rightarrow> bool"
  rewriteWorkspaceFileForNewLocation :: "string \<Rightarrow> uri \<Rightarrow> uri \<Rightarrow> string"

subsection \<open>Promises\<close>

definition resolve :: "'a \<Rightarrow> 'a promise" where
  "resolve v = ([], Inr v)"

definition reject :: "error \<Rightarrow> 'a promise" where
  "reject e = ([], Inl e)"

text \<open>\<open>p.then(f, g)\<close>: \<open>g\<close> sees a rejection of \<open>p\<close> only, never one of
  \<open>f\<close>.\<close>

definition then2 :: "'a promise \<Rightarrow> ('a \<Rightarrow> 'b promise) \<Rightarrow> (error \<Rightarrow> 'b promise) \<Rightarrow> 'b promise" where
  "then2 p f g =
     (case p of
        (t, Inr v) \<Rightarrow> (case f v of (t', r) \<Rightarrow> (t @ t', r))
      | (t, Inl e) \<Rightarrow> (case g e of (t', r) \<Rightarrow> (t @ t', r)))"

text \<open>\<open>p.then(f)\<close>, and \<open>await p\<close> followed by \<open>f\<close> in an \<open>async\<close> function.\<close>

definition then1 :: "'a promise \<Rightarrow> ('a \<Rightarrow> 'b promise) \<Rightarrow> 'b promise" where
  "then1 p f = then2 p f reject"

text \<open>A call on a collaborator that answers \<open>r\<close>.\<close>

definition call :: "event \<Rightarrow> error + 'a \<Rightarrow> 'a promise" where
  "call ev r = ([ev], r)"

definition call_void :: "event \<Rightarrow> error option \<Rightarrow> unit promise" where
  "call_void ev r = ([ev], case r of None \<Rightarrow> Inr () | Some e \<Rightarrow> Inl e)"

text \<open>A promise is an object, and every object is truthy: \<open>!p\<close> is \<open>false\<close>
  whatever \<open>p\<close> will be fulfilled with.\<close>

definition truthy_promise :: "'a promise \<Rightarrow> bool" where
  "truthy_promise p = True"

text \<open>A string is truthy when it is there and not empty.\<close>

definition truthy_string :: "string option \<Rightarrow> bool" where
  "truthy_string s = (case s of None \<Rightarrow> False | Some x \<Rightarrow> x \<noteq> [])"

subsection \<open>Arrays\<close>

text \<open>\<open>Array.prototype.slice(start, end)\<close> and the position at which
  \<open>splice(start, 0, ...items)\<close> inserts: a negative position counts from the end, and
  both are clamped to the array.\<close>

definition js_position :: "nat \<Rightarrow> int \<Rightarrow> nat" where
  "js_position len i = (if i < 0 then nat (max (int len + i) 0) else min (nat i) len)"

definition js_slice :: "'a list \<Rightarrow> int \<Rightarrow> int \<Rightarrow> 'a list" where
  "js_slice xs start stop =
     (let k = js_position (length xs) start; final = js_position (length xs) stop
      in take (final - k) (drop k xs))"

definition js_splice_insert :: "'a list \<Rightarrow> int \<Rightarrow> 'a list \<Rightarrow> 'a list" where
  "js_splice_insert xs start items =
     (let k = js_position (length xs) start in take k xs @ items @ drop k xs)"

text \<open>\<open>buttons[res]\<close>: \<open>undefined\<close> outside the array.\<close>

definition js_index :: "'a list \<Rightarrow> int \<Rightarrow> 'a option" where
  "js_index xs i = (if 0 \<le> i \<and> nat i < length xs then Some (xs ! nat i) else None)"

text \<open>\<open>buttons.indexOf(b)\<close>: the first position of \<open>b\<close>, or \<open>-1\<close>.\<close>

fun js_indexOf :: "'a list \<Rightarrow> 'a \<Rightarrow> int" where
  "js_indexOf [] b = -1"
| "js_indexOf (x # xs) b =
     (if x = b then 0 else (let i = js_indexOf xs b in if i < 0 then -1 else i + 1))"

text \<open>Modelled from the spec: the service imports \<open>distinct\<close> from
  \<open>vs/base/common/arrays\<close>, whose source is not at hand. Section 4.1: de-duplicate by
  key, preserving first occurrence order. The second argument holds the keys already
  seen.\<close>

fun distinct_seen :: "('a \<Rightarrow> string) \<Rightarrow> string list \<Rightarrow> 'a list \<Rightarrow> 'a list" where
  "distinct_seen keyFn seen [] = []"
| "distinct_seen keyFn seen (x # xs) =
     (if keyFn x \<in> set seen then distinct_seen keyFn seen xs
      else x # distinct_seen keyFn (keyFn x # seen) xs)"

definition distinct_by :: "'a list \<Rightarrow> ('a \<Rightarrow> string) \<Rightarrow> 'a list" where
  "distinct_by array keyFn = distinct_seen keyFn [] array"

subsection \<open>Resources\<close>

text \<open>Modelled from the spec: the service imports \<open>getComparisonKey\<close> and
  \<open>isEqual\<close> from \<open>vs/base/common/resources\<close>, whose source is not at hand.
  Section 3: equality of locations is by normalized comparison key, not raw string
  equality; the field \<^const>\<open>comparisonKey\<close> of the world is the normalization rule of
  the platform.\<close>

definition getComparisonKey :: "world \<Rightarrow> uri \<Rightarrow> string" where
  "getComparisonKey w resource = comparisonKey w resource"

definition isEqual :: "world \<Rightarrow> uri \<Rightarrow> uri \<Rightarrow> bool" where
  "isEqual w first second = (getComparisonKey w first = getComparisonKey w second)"

subsection \<open>Saving a workspace\<close>

definition getCurrentWorkspaceIdentifier :: "world \<Rightarrow> IWorkspaceIdentifier option" where
  "getCurrentWorkspaceIdentifier w =
     (case workspace_configuration w of
        Some c \<Rightarrow> Some \<lparr>wid = workspace_id w, configPath = c\<rparr>
      | None \<Rightarrow> None)"

definition pickNewWorkspacePath :: "world \<Rightarrow> (uri option) promise" where
  "pickNewWorkspacePath w = call ShowSaveDialog (fileDialogService_showSaveDialog w)"

definition window_has_workspace_at :: "world \<Rightarrow> uri \<Rightarrow> window \<Rightarrow> bool" where
  "window_has_workspace_at w path win =
     (case workspace win of
        None \<Rightarrow> False
      | Some ws \<Rightarrow> isEqual w (configPath ws) path)"

definition isValidTargetWorkspacePath :: "world \<Rightarrow> uri \<Rightarrow> bool promise" where
  "isValidTargetWorkspacePath w path =
     then1 (call GetWindows (windowsService_getWindows w)) (\<lambda>windows.
       if list_ex (window_has_workspace_at w path) windows
       then then1 (call_void (ShowMessageBox path) (windowService_showMessageBox w))
              (\<lambda>_. resolve False)
       else resolve True)"

definition saveWorkspaceAs :: "world \<Rightarrow> IWorkspaceIdentifier \<Rightarrow> uri \<Rightarrow> unit promise" where
  "saveWorkspaceAs w ws targetConfigPathURI =
     (let configPathURI = configPath ws in
      if isEqual w configPathURI targetConfigPathURI then resolve ()
      else
        then1 (call (ResolveContent configPathURI) (fileSystemService_resolveContent w configPathURI))
          (\<lambda>raw.
             let newRawWorkspaceContents =
                   rewriteWorkspaceFileForNewLocation w raw configPathURI targetConfigPathURI
             in then1 (call_void (CreateFile targetConfigPathURI newRawWorkspaceContents True)
                        (fileSystemService_createFile w targetConfigPathURI newRawWorkspaceContents))
                  (\<lambda>_. resolve ())))"

subsection \<open>Errors of a workspace edit\<close>

definition askToOpenWorkspaceConfigurationFile :: "string \<Rightarrow> event list" where
  "askToOpenWorkspaceConfigurationFile msg = [NotificationPrompt msg]"

definition onInvalidWorkspaceConfigurationFileError :: "event list" where
  "onInvalidWorkspaceConfigurationFileError =
     askToOpenWorkspaceConfigurationFile
       ''Unable to write into workspace configuration file. Please open the file to correct errors/warnings in it and try again.''"

definition onWorkspaceConfigurationFileDirtyError :: "event list" where
  "onWorkspaceConfigurationFileDirtyError =
     askToOpenWorkspaceConfigurationFile
       ''Unable to write into workspace configuration file because the file is dirty. Please save it and try again.''"

definition handleWorkspaceConfigurationEditingError :: "JSONEditingError \<Rightarrow> unit promise" where
  "handleWorkspaceConfigurationEditingError err =
     (case code err of
        ERROR_INVALID_FILE \<Rightarrow> (onInvalidWorkspaceConfigurationFileError, Inr ())
      | ERROR_FILE_DIRTY \<Rightarrow> (onWorkspaceConfigurationFileDirtyError, Inr ())
      | ERROR_OTHER _ \<Rightarrow> ([NotificationError (message err)], Inr ()))"

text \<open>The handler that the three delegating methods pass to \<open>then\<close>:
  \<open>error => donotNotifyError ? Promise.reject(error) : this.handleWorkspaceConfigurationEditingError(error)\<close>.\<close>

definition on_edit_result :: "event \<Rightarrow> JSONEditingError option \<Rightarrow> bool \<Rightarrow> unit promise" where
  "on_edit_result ev r donotNotifyError =
     (case r of
        None \<Rightarrow> ([ev], Inr ())
      | Some err \<Rightarrow>
          (if donotNotifyError then ([ev], Inl (EditError err))
           else (case handleWorkspaceConfigurationEditingError err of (t, x) \<Rightarrow> ([ev] @ t, x))))"

subsection \<open>Entering a workspace\<close>

text \<open>The local function \<open>startExtensionHost\<close> of \<open>enterWorkspace\<close>; it also sets the
  local flag \<open>extensionHostStarted\<close>, which the callers below carry as a boolean.\<close>

definition startExtensionHost :: "world \<Rightarrow> event list" where
  "startExtensionHost w =
     (if truthy_string (remoteAuthority w) then [ReloadWindow] else []) @ [StartExtensionHost]"

primrec copy_settings_loop ::
  "world \<Rightarrow> (IConfigurationPropertySchema \<Rightarrow> bool) option \<Rightarrow> string list \<Rightarrow> settings \<Rightarrow> settings" where
  "copy_settings_loop w filter' [] targetWorkspaceConfiguration = targetWorkspaceConfiguration"
| "copy_settings_loop w filter' (key # keys) targetWorkspaceConfiguration =
     copy_settings_loop w filter' keys
       (case configurationProperties w key of
          None \<Rightarrow> targetWorkspaceConfiguration
        | Some property \<Rightarrow>
            (if (case filter' of None \<Rightarrow> False | Some f \<Rightarrow> \<not> f property)
             then targetWorkspaceConfiguration
             else AList.update key (configurationService_inspect_workspace w key)
                    targetWorkspaceConfiguration))"

definition doCopyWorkspaceSettings ::
  "world \<Rightarrow> IWorkspaceIdentifier \<Rightarrow> (IConfigurationPropertySchema \<Rightarrow> bool) option \<Rightarrow> unit promise" where
  "doCopyWorkspaceSettings w toWorkspace filter' =
     (let targetWorkspaceConfiguration =
            copy_settings_loop w filter' (configurationService_keys_workspace w) []
      in call_void (JsonWrite (configPath toWorkspace) ''settings'' targetWorkspaceConfiguration True)
           (jsonEditingService_write w (configPath toWorkspace) targetWorkspaceConfiguration))"

definition migrateWorkspaceSettings :: "world \<Rightarrow> IWorkspaceIdentifier \<Rightarrow> unit promise" where
  "migrateWorkspaceSettings w toWorkspace =
     doCopyWorkspaceSettings w toWorkspace (Some (\<lambda>setting. scope setting = Some WINDOW))"

definition copyWorkspaceSettings :: "world \<Rightarrow> IWorkspaceIdentifier \<Rightarrow> unit promise" where
  "copyWorkspaceSettings w toWorkspace = doCopyWorkspaceSettings w toWorkspace None"

definition migrateStorage :: "world \<Rightarrow> IWorkspaceIdentifier \<Rightarrow> unit promise" where
  "migrateStorage w toWorkspace =
     call_void (StorageMigrate toWorkspace) (storageService_migrate w toWorkspace)"

definition migrate :: "world \<Rightarrow> IWorkspaceIdentifier \<Rightarrow> unit promise" where
  "migrate w toWorkspace =
     then1 (migrateStorage w toWorkspace) (\<lambda>_.
       if workbenchState w = FOLDER then migrateWorkspaceSettings w toWorkspace
       else resolve ())"

text \<open>\<open>workspaceImpl.initialize(result.workspace, startExtensionHost)\<close>: the collaborator
  answers whether it ran the task it was handed, and whether it failed.\<close>

definition initialize_with_task :: "world \<Rightarrow> IWorkspaceIdentifier \<Rightarrow> unit promise \<times> bool" where
  "initialize_with_task w ws =
     (case contextService_initialize w ws of
        (invoked, r) \<Rightarrow>
          (([ContextInitialize ws] @ (if invoked then startExtensionHost w else []),
            (case r of None \<Rightarrow> Inr () | Some e \<Rightarrow> Inl e)),
           invoked))"

text \<open>The promise \<open>this.windowService.enterWorkspace(path).then(result => ...)\<close>, with the
  value of \<open>extensionHostStarted\<close> once it has settled.\<close>

definition enterWorkspace_attempt :: "world \<Rightarrow> uri \<Rightarrow> unit promise \<times> bool" where
  "enterWorkspace_attempt w path =
     (case windowService_enterWorkspace w path of
        Inl e \<Rightarrow> (([HostEnterWorkspace path], Inl e), False)
      | Inr None \<Rightarrow> (([HostEnterWorkspace path], Inr ()), False)
      | Inr (Some result) \<Rightarrow>
          (case migrate w (result_workspace result) of
             (tm, Inl e) \<Rightarrow> (([HostEnterWorkspace path] @ tm, Inl e), False)
           | (tm, Inr _) \<Rightarrow>
               (case initialize_with_task w (result_workspace result) of
                  ((ti, r), started) \<Rightarrow>
                    (([HostEnterWorkspace path] @ tm
                        @ (if backupFileService_is_BackupFileService w
                           then [BackupInitialize (backupPath result)] else [])
                        @ ti, r),
                     started))))"

definition enterWorkspace :: "world \<Rightarrow> uri \<Rightarrow> unit promise" where
  "enterWorkspace w path =
     (if extensionTestsLocationURI w \<noteq> None
      then reject (Error ''Entering a new workspace is not possible in tests.'')
      else
        (case enterWorkspace_attempt w path of
           ((t, Inr v), extensionHostStarted) \<Rightarrow> (StopExtensionHost # t, Inr v)
         | ((t, Inl e), extensionHostStarted) \<Rightarrow>
             (StopExtensionHost # t @ (if \<not> extensionHostStarted then startExtensionHost w else []),
              Inl e)))"

definition createAndEnterWorkspace ::
  "world \<Rightarrow> IWorkspaceFolderCreationData list \<Rightarrow> uri option \<Rightarrow> unit promise" where
  "createAndEnterWorkspace w folders path =
     (let valid = (case path of None \<Rightarrow> None | Some p \<Rightarrow> Some (isValidTargetWorkspacePath w p));
          t0 = (case valid of None \<Rightarrow> [] | Some v \<Rightarrow> [Unawaited (fst v)])
      in if (case valid of None \<Rightarrow> False | Some v \<Rightarrow> \<not> truthy_promise v)
         then (t0, Inl RejectNull)
         else
           (case then1 (call (CreateUntitledWorkspace folders (remoteAuthority w))
                          (workspaceService_createUntitledWorkspace w folders (remoteAuthority w)))
                   (\<lambda>untitledWorkspace.
                      (case path of
                         Some p \<Rightarrow>
                           then1 (saveWorkspaceAs w untitledWorkspace p) (\<lambda>_. enterWorkspace w p)
                       | None \<Rightarrow> enterWorkspace w (configPath untitledWorkspace)))
            of (t, r) \<Rightarrow> (t0 @ t, r)))"

definition saveAndEnterWorkspace :: "world \<Rightarrow> uri \<Rightarrow> unit promise" where
  "saveAndEnterWorkspace w path =
     (let valid = isValidTargetWorkspacePath w path;
          t0 = [Unawaited (fst valid)]
      in if \<not> truthy_promise valid then (t0, Inl RejectNull)
         else
           (case getCurrentWorkspaceIdentifier w of
              None \<Rightarrow> (t0, Inl RejectNull)
            | Some workspaceIdentifier \<Rightarrow>
                (case then1 (saveWorkspaceAs w workspaceIdentifier path) (\<lambda>_. enterWorkspace w path)
                 of (t, r) \<Rightarrow> (t0 @ t, r))))"

subsection \<open>Editing the folders\<close>

text \<open>\<open>folders[0]\<close> is \<open>undefined\<close> when the workspace has no folder, and reading its
  \<open>uri\<close> inside the callback of \<open>some\<close> throws, which happens when there is a folder to
  test.\<close>

definition includesSingleFolderWorkspace :: "world \<Rightarrow> uri list \<Rightarrow> error + bool" where
  "includesSingleFolderWorkspace w folders =
     (if workbenchState w = FOLDER then
        (case workspace_folders w of
           [] \<Rightarrow> (if folders = [] then Inr False else Inl TypeError)
         | workspaceFolder # _ \<Rightarrow>
             Inr (list_ex (\<lambda>folder. isEqual w folder (folder_uri workspaceFolder)) folders))
      else Inr False)"

text \<open>A parameter declared \<open>donotNotifyError: boolean = false\<close>.\<close>

definition default_false :: "bool option \<Rightarrow> bool" where
  "default_false b = (case b of None \<Rightarrow> False | Some x \<Rightarrow> x)"

definition removeFolders :: "world \<Rightarrow> uri list \<Rightarrow> bool option \<Rightarrow> unit promise" where
  "removeFolders w foldersToRemove donotNotifyError =
     (case includesSingleFolderWorkspace w foldersToRemove of
        Inl e \<Rightarrow> reject e
      | Inr True \<Rightarrow> createAndEnterWorkspace w [] None
      | Inr False \<Rightarrow>
          on_edit_result (ContextRemoveFolders foldersToRemove)
            (contextService_removeFolders w foldersToRemove) (default_false donotNotifyError))"

text \<open>The list that \<open>doAddFolders\<close> builds outside a workspace: the current folders as
  bare locations, the new ones spliced in, de-duplicated by comparison key.\<close>

definition newWorkspaceFolders ::
  "world \<Rightarrow> IWorkspaceFolderCreationData list \<Rightarrow> int option \<Rightarrow> IWorkspaceFolderCreationData list" where
  "newWorkspaceFolders w foldersToAdd index =
     (let current = map (\<lambda>folder. \<lparr>uri = folder_uri folder, name = None\<rparr>) (workspace_folders w);
          spliced = js_splice_insert current
                      (case index of Some i \<Rightarrow> i | None \<Rightarrow> int (length current)) foldersToAdd
      in distinct_by spliced (\<lambda>folder. getComparisonKey w (uri folder)))"

definition doAddFolders ::
  "world \<Rightarrow> IWorkspaceFolderCreationData list \<Rightarrow> int option \<Rightarrow> bool option \<Rightarrow> unit promise" where
  "doAddFolders w foldersToAdd index donotNotifyError =
     (let state = workbenchState w in
      if state \<noteq> WORKSPACE then
        (let new = newWorkspaceFolders w foldersToAdd index in
         if state = EMPTY \<and> length new = 0 \<or> state = FOLDER \<and> length new = 1
         then resolve ()
         else createAndEnterWorkspace w new None)
      else
        on_edit_result (ContextAddFolders foldersToAdd index)
          (contextService_addFolders w foldersToAdd index) (default_false donotNotifyError))"

definition addFolders ::
  "world \<Rightarrow> IWorkspaceFolderCreationData list \<Rightarrow> bool option \<Rightarrow> unit promise" where
  "addFolders w foldersToAdd donotNotifyError =
     doAddFolders w foldersToAdd None (Some (default_false donotNotifyError))"

definition doUpdateFolders ::
  "world \<Rightarrow> IWorkspaceFolderCreationData list \<Rightarrow> uri list \<Rightarrow> int option \<Rightarrow> bool option \<Rightarrow> unit promise" where
  "doUpdateFolders w foldersToAdd foldersToDelete index donotNotifyError =
     on_edit_result (ContextUpdateFolders foldersToAdd foldersToDelete index)
       (contextService_updateFolders w foldersToAdd foldersToDelete index)
       (default_false donotNotifyError)"

text \<open>The first lines of \<open>updateFolders\<close>: the locations of the folders at the positions
  \<open>[index, index + deleteCount)\<close> of the current list.\<close>

definition foldersToDelete_of :: "world \<Rightarrow> int \<Rightarrow> int option \<Rightarrow> uri list" where
  "foldersToDelete_of w index deleteCount =
     (case deleteCount of
        Some n \<Rightarrow> map folder_uri (js_slice (workspace_folders w) index (index + n))
      | None \<Rightarrow> [])"

definition updateFolders ::
  "world \<Rightarrow> int \<Rightarrow> int option \<Rightarrow> IWorkspaceFolderCreationData list option \<Rightarrow> bool option \<Rightarrow> unit promise" where
  "updateFolders w index deleteCount foldersToAdd donotNotifyError =
     (let foldersToDelete = foldersToDelete_of w index deleteCount;
          wantsToDelete = (length foldersToDelete > 0);
          wantsToAdd = (case foldersToAdd of None \<Rightarrow> False | Some fs \<Rightarrow> length fs > 0);
          toAdd = (case foldersToAdd of None \<Rightarrow> [] | Some fs \<Rightarrow> fs)
      in if \<not> wantsToAdd \<and> \<not> wantsToDelete then resolve ()
         else if wantsToAdd \<and> \<not> wantsToDelete then doAddFolders w toAdd (Some index) donotNotifyError
         else if wantsToDelete \<and> \<not> wantsToAdd then removeFolders w foldersToDelete None
         else
           (case includesSingleFolderWorkspace w foldersToDelete of
              Inl e \<Rightarrow> reject e
            | Inr True \<Rightarrow> createAndEnterWorkspace w toAdd None
            | Inr False \<Rightarrow>
                (if workbenchState w \<noteq> WORKSPACE then doAddFolders w toAdd (Some index) donotNotifyError
                 else doUpdateFolders w toAdd foldersToDelete (Some index) donotNotifyError)))"

subsection \<open>The shutdown guard\<close>

text \<open>The buttons of the prompt, in the order of the platform. The dialog is handed their
  labels; the trace records which button stands where.\<close>

definition buttons :: "world \<Rightarrow> ConfirmResult list" where
  "buttons w =
     (if isWindows w then [SAVE, DONT_SAVE, CANCEL]
      else if isLinux w then [DONT_SAVE, CANCEL, SAVE]
      else [SAVE, CANCEL, DONT_SAVE])"

definition on_save_choice :: "world \<Rightarrow> IWorkspaceIdentifier \<Rightarrow> bool promise" where
  "on_save_choice w workspaceIdentifier =
     then1 (pickNewWorkspacePath w) (\<lambda>newWorkspacePath.
       (case newWorkspacePath of
          Some p \<Rightarrow>
            then2 (saveWorkspaceAs w workspaceIdentifier p)
              (\<lambda>_. then1 (call (GetWorkspaceIdentifier p) (workspaceService_getWorkspaceIdentifier w p))
                 (\<lambda>newWorkspaceIdentifier.
                    ([AddRecentlyOpened (labelService_getWorkspaceLabel w newWorkspaceIdentifier)
                        newWorkspaceIdentifier,
                      DeleteUntitledWorkspace workspaceIdentifier],
                     Inr False)))
              (\<lambda>_. resolve False)
        | None \<Rightarrow> resolve True))"

definition on_dialog_choice :: "world \<Rightarrow> IWorkspaceIdentifier \<Rightarrow> int \<Rightarrow> bool promise" where
  "on_dialog_choice w workspaceIdentifier res =
     (case js_index (buttons w) res of
        None \<Rightarrow> reject TypeError
      | Some CANCEL \<Rightarrow> resolve True
      | Some DONT_SAVE \<Rightarrow> ([DeleteUntitledWorkspace workspaceIdentifier], Inr False)
      | Some SAVE \<Rightarrow> on_save_choice w workspaceIdentifier)"

definition saveUntitedBeforeShutdown :: "world \<Rightarrow> ShutdownReason \<Rightarrow> (bool promise) option" where
  "saveUntitedBeforeShutdown w reason =
     (if reason \<noteq> LOAD \<and> reason \<noteq> CLOSE then None
      else
        (case getCurrentWorkspaceIdentifier w of
           None \<Rightarrow> None
         | Some workspaceIdentifier \<Rightarrow>
             (if \<not> isEqualOrParent w (configPath workspaceIdentifier) (untitledWorkspacesHome w)
              then None
              else Some
                (then1 (call GetWindowCount (windowsService_getWindowCount w)) (\<lambda>windowCount.
                   if reason = CLOSE \<and> \<not> isMacintosh w \<and> windowCount = 1 then resolve False
                   else
                     then1 (call (DialogShow (buttons w) (js_indexOf (buttons w) CANCEL))
                              (dialogService_show w))
                       (on_dialog_choice w workspaceIdentifier))))))"

subsection \<open>Sessions to evaluate the service on\<close>

text \<open>A platform rule for the comparison key: a trailing separator does not count.\<close>

definition strip_trailing_separator :: "uri \<Rightarrow> string" where
  "strip_trailing_separator u = (if u \<noteq> [] \<and> last u = CHR ''/'' then butlast u else u)"

text \<open>A Linux session with no folder open, two windows, and collaborators that all
  succeed: the host accepts every workspace, files read as \<open>{}\<close>.\<close>

definition empty_session :: world where
  "empty_session =
     \<lparr> workbenchState = EMPTY,
       workspace_id = ''empty-window'',
       workspace_folders = [],
       workspace_configuration = None,
       contextService_updateFolders = (\<lambda>_ _ _. None),
       contextService_addFolders = (\<lambda>_ _. None),
       contextService_removeFolders = (\<lambda>_. None),
       contextService_initialize = (\<lambda>_. (True, None)),
       remoteAuthority = None,
       windowService_enterWorkspace =
         (\<lambda>p. Inr (Some \<lparr>result_workspace = \<lparr>wid = ''entered'', configPath = p\<rparr>,
                           backupPath = Some ''/backups/entered''\<rparr>)),
       windowService_showMessageBox = None,
       windowsService_getWindowCount = Inr 2,
       windowsService_getWindows = Inr [],
       workspaceService_createUntitledWorkspace =
         (\<lambda>_ _. Inr \<lparr>wid = ''untitled-1'', configPath = ''/untitled/1/workspace.json''\<rparr>),
       workspaceService_getWorkspaceIdentifier = (\<lambda>p. Inr \<lparr>wid = ''saved'', configPath = p\<rparr>),
       fileSystemService_resolveContent = (\<lambda>_. Inr ''{}''),
       fileSystemService_createFile = (\<lambda>_ _. None),
       storageService_migrate = (\<lambda>_. None),
       jsonEditingService_write = (\<lambda>_ _. None),
       backupFileService_is_BackupFileService = True,
       configurationService_keys_workspace = [],
       configurationService_inspect_workspace = (\<lambda>_. ''null''),
       configurationProperties = (\<lambda>_. None),
       untitledWorkspacesHome = ''/untitled'',
       extensionTestsLocationURI = None,
       dialogService_show = Inr 0,
       fileDialogService_showSaveDialog = Inr None,
       labelService_getWorkspaceLabel = (\<lambda>ws. configPath ws),
       isWindows = False,
       isLinux = True,
       isMacintosh = False,
       comparisonKey = strip_trailing_separator,
       isEqualOrParent = (\<lambda>a b. take (length b) a = b),
       rewriteWorkspaceFileForNewLocation = (\<lambda>raw _ _. raw) \<rparr>"

text \<open>The folder \<open>/src/app\<close> is open on its own.\<close>

definition folder_session :: world where
  "folder_session =
     empty_session
       \<lparr> workbenchState := FOLDER,
         workspace_id := ''folder-app'',
         workspace_folders := [\<lparr>folder_uri = ''/src/app'', folder_name = ''app''\<rparr>] \<rparr>"

text \<open>The workspace \<open>/home/u/current.code-workspace\<close> is open with two folders; another
  window has the workspace \<open>/home/u/target.code-workspace\<close> open.\<close>

definition workspace_session :: world where
  "workspace_session =
     empty_session
       \<lparr> workbenchState := WORKSPACE,
         workspace_id := ''current'',
         workspace_folders := [\<lparr>folder_uri = ''/src/app'', folder_name = ''app''\<rparr>,
                               \<lparr>folder_uri = ''/src/lib'', folder_name = ''lib''\<rparr>],
         workspace_configuration := Some ''/home/u/current.code-workspace'',
         windowsService_getWindows :=
           Inr [\<lparr>window_id = 1, workspace = Some \<lparr>wid = ''current'', configPath = ''/home/u/current.code-workspace''\<rparr>\<rparr>,
                \<lparr>window_id = 2, workspace = Some \<lparr>wid = ''target'', configPath = ''/home/u/target.code-workspace''\<rparr>\<rparr>,
                \<lparr>window_id = 3, workspace = None\<rparr>] \<rparr>"

text \<open>An untitled workspace is open.\<close>

definition untitled_session :: world where
  "untitled_session =
     empty_session
       \<lparr> workbenchState := WORKSPACE,
         workspace_id := ''untitled-7'',
         workspace_folders := [\<lparr>folder_uri = ''/src/app'', folder_name = ''app''\<rparr>],
         workspace_configuration := Some ''/untitled/7/workspace.json'' \<rparr>"

section \<open>Properties\<close>

subsection \<open>Saving to the location the workspace already has\<close>

text \<open>C9: \<open>saveWorkspaceAs(workspace, target)\<close> with a target equal to the workspace's
  configuration location is fulfilled and calls no collaborator: the file is not read and
  nothing is written.\<close>

theorem saveWorkspaceAs_same_location:
  "isEqual w (configPath ws) target \<Longrightarrow> saveWorkspaceAs w ws target = ([], Inr ())"
  by (simp add: saveWorkspaceAs_def resolve_def)

theorem saveWorkspaceAs_same_location_witness:
  "isEqual empty_session (configPath \<lparr>wid = ''current'', configPath = ''/home/u/current.code-workspace''\<rparr>)
       ''/home/u/current.code-workspace/''
   \<and> saveWorkspaceAs empty_session \<lparr>wid = ''current'', configPath = ''/home/u/current.code-workspace''\<rparr>
       ''/home/u/current.code-workspace/'' = ([], Inr ())"
proof -
  have same: "isEqual empty_session (configPath \<lparr>wid = ''current'', configPath = ''/home/u/current.code-workspace''\<rparr>)
       ''/home/u/current.code-workspace/''"
    by (simp add: isEqual_def getComparisonKey_def empty_session_def strip_trailing_separator_def)
  from saveWorkspaceAs_same_location [OF same] same show ?thesis by simp
qed

subsection \<open>Nothing to add and nothing to delete\<close>

text \<open>C8: in every session, when the range to delete is empty and \<open>foldersToAdd\<close> is absent
  or empty, \<open>updateFolders\<close> is fulfilled and calls no collaborator: no workspace is
  entered, no edit is delegated, nothing is read or written.\<close>

theorem updateFolders_nothing_to_do:
  assumes "foldersToDelete_of w index deleteCount = []"
    and "foldersToAdd = None \<or> foldersToAdd = Some []"
  shows "updateFolders w index deleteCount foldersToAdd donotNotifyError = ([], Inr ())"
  using assms by (auto simp: updateFolders_def resolve_def)

theorem updateFolders_nothing_to_do_witness:
  "foldersToDelete_of workspace_session 5 (Some 3) = []
   \<and> updateFolders workspace_session 5 (Some 3) (Some []) (Some True) = ([], Inr ())
   \<and> foldersToDelete_of folder_session 0 None = []
   \<and> updateFolders folder_session 0 None None None = ([], Inr ())"
proof -
  have d1: "foldersToDelete_of workspace_session 5 (Some 3) = []"
    by (simp add: foldersToDelete_of_def js_slice_def js_position_def workspace_session_def)
  have d2: "foldersToDelete_of folder_session 0 None = []"
    by (simp add: foldersToDelete_of_def)
  from updateFolders_nothing_to_do [OF d1, of "Some []" "Some True"]
    updateFolders_nothing_to_do [OF d2, of None None] d1 d2
  show ?thesis by simp
qed

subsection \<open>Targets that another window has open\<close>

text \<open>C6: when the list of windows is delivered (and the message box returns),
  \<open>isValidTargetWorkspacePath(target)\<close> is fulfilled with \<open>false\<close> when some window of
  the list has a workspace whose configuration location has the comparison key of the
  target, and with \<open>true\<close> otherwise.\<close>

theorem isValidTargetWorkspacePath_result:
  assumes "windowsService_getWindows w = Inr windows"
    and "windowService_showMessageBox w = None"
  shows "snd (isValidTargetWorkspacePath w target) =
           Inr (\<not> (\<exists>win \<in> set windows. \<exists>ws. workspace win = Some ws
                     \<and> getComparisonKey w (configPath ws) = getComparisonKey w target))"
proof -
  have "list_ex (window_has_workspace_at w target) windows
        \<longleftrightarrow> (\<exists>win \<in> set windows. \<exists>ws. workspace win = Some ws
                     \<and> getComparisonKey w (configPath ws) = getComparisonKey w target)"
    by (auto simp: list_ex_iff window_has_workspace_at_def isEqual_def split: option.splits)
  then show ?thesis
    using assms
    by (simp add: isValidTargetWorkspacePath_def then1_def then2_def call_def call_void_def
        resolve_def reject_def)
qed

theorem isValidTargetWorkspacePath_result_witness:
  "snd (isValidTargetWorkspacePath workspace_session ''/home/u/target.code-workspace/'') = Inr False
   \<and> snd (isValidTargetWorkspacePath workspace_session ''/home/u/free.code-workspace'') = Inr True"
proof -
  let ?windows =
    "[\<lparr>window_id = 1, workspace = Some \<lparr>wid = ''current'', configPath = ''/home/u/current.code-workspace''\<rparr>\<rparr>,
      \<lparr>window_id = 2, workspace = Some \<lparr>wid = ''target'', configPath = ''/home/u/target.code-workspace''\<rparr>\<rparr>,
      \<lparr>window_id = 3, workspace = None\<rparr>]"
  have g: "windowsService_getWindows workspace_session = Inr ?windows"
    by (simp add: workspace_session_def)
  have m: "windowService_showMessageBox workspace_session = None"
    by (simp add: workspace_session_def empty_session_def)
  have k: "getComparisonKey workspace_session = strip_trailing_separator"
    by (simp add: getComparisonKey_def workspace_session_def empty_session_def fun_eq_iff)
  from isValidTargetWorkspacePath_result [OF g m, of "''/home/u/target.code-workspace/''"]
    isValidTargetWorkspacePath_result [OF g m, of "''/home/u/free.code-workspace''"]
  show ?thesis
    by (simp add: k strip_trailing_separator_def)
qed

text \<open>C1: the claim is that \<open>saveAndEnterWorkspace(path)\<close> and
  \<open>createAndEnterWorkspace(folders, path)\<close> are rejected at once, with no save and no entering,
  when another window has a workspace open at \<open>path\<close>. Both methods negate the promise of
  \<open>isValidTargetWorkspacePath\<close> instead of its value, so the test never fires. Evaluated
  on a session whose second window has \<open>/home/u/target.code-workspace\<close> open: the check
  itself answers \<open>false\<close>, and still both methods write the file at the target, enter the
  workspace and are fulfilled.\<close>

theorem saveAndEnterWorkspace_target_open_elsewhere:
  "snd (isValidTargetWorkspacePath workspace_session ''/home/u/target.code-workspace'') = Inr False
   \<and> saveAndEnterWorkspace workspace_session ''/home/u/target.code-workspace''
     = ([Unawaited [GetWindows, ShowMessageBox ''/home/u/target.code-workspace''],
         ResolveContent ''/home/u/current.code-workspace'',
         CreateFile ''/home/u/target.code-workspace'' ''{}'' True,
         StopExtensionHost,
         HostEnterWorkspace ''/home/u/target.code-workspace'',
         StorageMigrate \<lparr>wid = ''entered'', configPath = ''/home/u/target.code-workspace''\<rparr>,
         BackupInitialize (Some ''/backups/entered''),
         ContextInitialize \<lparr>wid = ''entered'', configPath = ''/home/u/target.code-workspace''\<rparr>,
         StartExtensionHost],
        Inr ())
   \<and> createAndEnterWorkspace workspace_session [] (Some ''/home/u/target.code-workspace'')
     = ([Unawaited [GetWindows, ShowMessageBox ''/home/u/target.code-workspace''],
         CreateUntitledWorkspace [] None,
         ResolveContent ''/untitled/1/workspace.json'',
         CreateFile ''/home/u/target.code-workspace'' ''{}'' True,
         StopExtensionHost,
         HostEnterWorkspace ''/home/u/target.code-workspace'',
         StorageMigrate \<lparr>wid = ''entered'', configPath = ''/home/u/target.code-workspace''\<rparr>,
         BackupInitialize (Some ''/backups/entered''),
         ContextInitialize \<lparr>wid = ''entered'', configPath = ''/home/u/target.code-workspace''\<rparr>,
         StartExtensionHost],
        Inr ())"
  by (simp add: saveAndEnterWorkspace_def createAndEnterWorkspace_def isValidTargetWorkspacePath_def
      window_has_workspace_at_def truthy_promise_def getCurrentWorkspaceIdentifier_def
      saveWorkspaceAs_def isEqual_def getComparisonKey_def strip_trailing_separator_def
      enterWorkspace_def enterWorkspace_attempt_def migrate_def migrateStorage_def
      initialize_with_task_def startExtensionHost_def truthy_string_def
      then1_def then2_def call_def call_void_def resolve_def reject_def
      workspace_session_def empty_session_def)

subsection \<open>The host refuses the workspace\<close>

text \<open>C3: when \<open>windowService.enterWorkspace\<close> is rejected with an error, \<open>enterWorkspace\<close>
  stops the extension host, starts it again exactly once, is rejected with that same error,
  and migrates neither the storage nor the settings.\<close>

theorem enterWorkspace_host_error:
  assumes "extensionTestsLocationURI w = None"
    and "windowService_enterWorkspace w path = Inl e"
  shows "snd (enterWorkspace w path) = Inl e
       \<and> fst (enterWorkspace w path) = [StopExtensionHost, HostEnterWorkspace path] @ startExtensionHost w
       \<and> count_list (fst (enterWorkspace w path)) StartExtensionHost = 1
       \<and> (\<forall>ws. StorageMigrate ws \<notin> set (fst (enterWorkspace w path)))
       \<and> (\<forall>p k s b. JsonWrite p k s b \<notin> set (fst (enterWorkspace w path)))"
  using assms
  by (auto simp: enterWorkspace_def enterWorkspace_attempt_def startExtensionHost_def)

theorem enterWorkspace_host_error_witness:
  "snd (enterWorkspace
          (workspace_session\<lparr>windowService_enterWorkspace := (\<lambda>_. Inl (External ''already open''))\<rparr>)
          ''/home/u/next.code-workspace'') = Inl (External ''already open'')
   \<and> fst (enterWorkspace
          (workspace_session\<lparr>windowService_enterWorkspace := (\<lambda>_. Inl (External ''already open''))\<rparr>)
          ''/home/u/next.code-workspace'')
       = [StopExtensionHost, HostEnterWorkspace ''/home/u/next.code-workspace'', StartExtensionHost]"
proof -
  let ?w = "workspace_session\<lparr>windowService_enterWorkspace := (\<lambda>_. Inl (External ''already open''))\<rparr>"
  have t: "extensionTestsLocationURI ?w = None"
    by (simp add: workspace_session_def empty_session_def)
  have h: "windowService_enterWorkspace ?w ''/home/u/next.code-workspace'' = Inl (External ''already open'')"
    by simp
  have s: "startExtensionHost ?w = [StartExtensionHost]"
    by (simp add: startExtensionHost_def truthy_string_def workspace_session_def empty_session_def)
  from enterWorkspace_host_error [OF t h] s show ?thesis by simp
qed

subsection \<open>Settings that move with a single folder\<close>

lemma copy_settings_loop_map_of:
  "map_of (copy_settings_loop w flt keys acc) k =
     (if k \<in> set keys \<and> (\<exists>p. configurationProperties w k = Some p
            \<and> \<not> (case flt of None \<Rightarrow> False | Some f \<Rightarrow> \<not> f p))
      then Some (configurationService_inspect_workspace w k)
      else map_of acc k)"
proof (induction keys arbitrary: acc)
  case Nil
  then show ?case by simp
next
  case (Cons key keys)
  show ?case
    by (cases "configurationProperties w key") (auto simp: Cons.IH update_conv)
qed

lemma copy_settings_loop_distinct:
  "distinct (map fst acc) \<Longrightarrow> distinct (map fst (copy_settings_loop w flt keys acc))"
proof (induction keys arbitrary: acc)
  case Nil
  then show ?case by simp
next
  case (Cons key keys)
  then show ?case
    by (cases "configurationProperties w key") (auto simp: distinct_update)
qed

text \<open>C5: when \<open>migrate\<close> runs in the \<open>FOLDER\<close> state (and the storage has migrated), the
  settings written into the new workspace's \<open>settings\<close> block are exactly the keys of
  \<open>keys().workspace\<close> that have a declared property of scope \<open>WINDOW\<close>, each with its
  workspace value. A key of machine or resource scope, or with no declared property, is not
  written.\<close>

theorem migrate_copies_window_settings:
  assumes "workbenchState w = FOLDER"
    and "storageService_migrate w toWorkspace = None"
  shows "\<exists>copied.
           fst (migrate w toWorkspace) =
             [StorageMigrate toWorkspace, JsonWrite (configPath toWorkspace) ''settings'' copied True]
         \<and> distinct (map fst copied)
         \<and> (\<forall>key. map_of copied key =
               (if key \<in> set (configurationService_keys_workspace w)
                   \<and> (\<exists>p. configurationProperties w key = Some p \<and> scope p = Some WINDOW)
                then Some (configurationService_inspect_workspace w key)
                else None))"
proof -
  let ?copied = "copy_settings_loop w (Some (\<lambda>setting. scope setting = Some WINDOW))
                   (configurationService_keys_workspace w) []"
  have "fst (migrate w toWorkspace) =
          [StorageMigrate toWorkspace, JsonWrite (configPath toWorkspace) ''settings'' ?copied True]"
    using assms
    by (simp add: migrate_def migrateStorage_def migrateWorkspaceSettings_def
        doCopyWorkspaceSettings_def then1_def then2_def call_void_def Let_def split: option.splits)
  moreover have "distinct (map fst ?copied)"
    by (rule copy_settings_loop_distinct) simp
  moreover have "\<forall>key. map_of ?copied key =
               (if key \<in> set (configurationService_keys_workspace w)
                   \<and> (\<exists>p. configurationProperties w key = Some p \<and> scope p = Some WINDOW)
                then Some (configurationService_inspect_workspace w key)
                else None)"
    by (simp add: copy_settings_loop_map_of)
  ultimately show ?thesis by blast
qed

theorem migrate_copies_window_settings_witness:
  "fst (migrate
     (folder_session
        \<lparr> configurationService_keys_workspace :=
            [''update.channel'', ''window.zoomLevel'', ''files.exclude'', ''acme.unknown''],
          configurationService_inspect_workspace := (\<lambda>key. if key = ''window.zoomLevel'' then ''2'' else ''x''),
          configurationProperties :=
            [''update.channel'' \<mapsto> \<lparr>scope = Some MACHINE\<rparr>,
             ''window.zoomLevel'' \<mapsto> \<lparr>scope = Some WINDOW\<rparr>,
             ''files.exclude'' \<mapsto> \<lparr>scope = Some RESOURCE\<rparr>] \<rparr>)
     \<lparr>wid = ''entered'', configPath = ''/untitled/1/workspace.json''\<rparr>)
   = [StorageMigrate \<lparr>wid = ''entered'', configPath = ''/untitled/1/workspace.json''\<rparr>,
      JsonWrite ''/untitled/1/workspace.json'' ''settings'' [(''window.zoomLevel'', ''2'')] True]"
proof -
  let ?w = "folder_session
        \<lparr> configurationService_keys_workspace :=
            [''update.channel'', ''window.zoomLevel'', ''files.exclude'', ''acme.unknown''],
          configurationService_inspect_workspace := (\<lambda>key. if key = ''window.zoomLevel'' then ''2'' else ''x''),
          configurationProperties :=
            [''update.channel'' \<mapsto> \<lparr>scope = Some MACHINE\<rparr>,
             ''window.zoomLevel'' \<mapsto> \<lparr>scope = Some WINDOW\<rparr>,
             ''files.exclude'' \<mapsto> \<lparr>scope = Some RESOURCE\<rparr>] \<rparr>"
  let ?to = "\<lparr>wid = ''entered'', configPath = ''/untitled/1/workspace.json''\<rparr>"
  have st: "workbenchState ?w = FOLDER"
    by (simp add: folder_session_def)
  have sm: "storageService_migrate ?w ?to = None"
    by (simp add: folder_session_def empty_session_def)
  from migrate_copies_window_settings [OF st sm]
  obtain copied where tr: "fst (migrate ?w ?to)
        = [StorageMigrate ?to, JsonWrite (configPath ?to) ''settings'' copied True]"
    by blast
  have "copy_settings_loop ?w (Some (\<lambda>setting. scope setting = Some WINDOW))
          (configurationService_keys_workspace ?w) [] = [(''window.zoomLevel'', ''2'')]"
    by simp
  then have "fst (migrate ?w ?to)
        = [StorageMigrate ?to, JsonWrite (configPath ?to) ''settings'' [(''window.zoomLevel'', ''2'')] True]"
    using st sm
    by (simp add: migrate_def migrateStorage_def migrateWorkspaceSettings_def
        doCopyWorkspaceSettings_def then1_def then2_def call_void_def Let_def)
  with tr have "copied = [(''window.zoomLevel'', ''2'')]"
    by simp
  with tr show ?thesis
    by simp
qed

subsection \<open>De-duplication when folders are added\<close>

lemma distinct_seen_first_occurrences:
  "distinct_seen k seen xs =
     map (\<lambda>i. xs ! i)
       (filter (\<lambda>i. k (xs ! i) \<notin> set seen \<and> (\<forall>j<i. k (xs ! j) \<noteq> k (xs ! i))) [0..<length xs])"
proof (induction xs arbitrary: seen)
  case Nil
  then show ?case by simp
next
  case (Cons x xs)
  let ?P = "\<lambda>s ys i. k (ys ! i) \<notin> set s \<and> (\<forall>j<i. k (ys ! j) \<noteq> k (ys ! i))"
  have upt: "[0..<length (x # xs)] = 0 # map Suc [0..<length xs]"
    by (simp add: upt_conv_Cons map_Suc_upt del: upt_Suc)
  have step: "?P seen (x # xs) (Suc i) \<longleftrightarrow> k x \<noteq> k (xs ! i) \<and> ?P seen xs i" for i
    by (auto simp: less_Suc_eq_0_disj)
  have tail: "map (\<lambda>i. (x # xs) ! i) (filter (?P seen (x # xs)) (map Suc [0..<length xs]))
            = map (\<lambda>i. xs ! i) (filter (\<lambda>i. k x \<noteq> k (xs ! i) \<and> ?P seen xs i) [0..<length xs])"
    unfolding filter_map map_map comp_def step by simp
  show ?case
  proof (cases "k x \<in> set seen")
    case True
    have "filter (\<lambda>i. k x \<noteq> k (xs ! i) \<and> ?P seen xs i) [0..<length xs]
        = filter (?P seen xs) [0..<length xs]"
      using True by (intro filter_cong) auto
    with True tail show ?thesis
      unfolding upt by (simp add: Cons.IH)
  next
    case False
    have "filter (\<lambda>i. k x \<noteq> k (xs ! i) \<and> ?P seen xs i) [0..<length xs]
        = filter (?P (k x # seen) xs) [0..<length xs]"
      by (intro filter_cong) auto
    with False tail show ?thesis
      unfolding upt by (simp add: Cons.IH)
  qed
qed

lemma distinct_by_first_occurrences:
  "distinct_by xs k =
     map (\<lambda>i. xs ! i) (filter (\<lambda>i. \<forall>j<i. k (xs ! j) \<noteq> k (xs ! i)) [0..<length xs])"
  by (simp add: distinct_by_def distinct_seen_first_occurrences)

lemma newWorkspaceFolders_first_occurrences:
  assumes "spliced =
      js_splice_insert (map (\<lambda>folder. \<lparr>uri = folder_uri folder, name = None\<rparr>) (workspace_folders w))
        (case index of Some i \<Rightarrow> i | None \<Rightarrow> int (length (workspace_folders w))) foldersToAdd"
  shows "newWorkspaceFolders w foldersToAdd index =
     map (\<lambda>i. spliced ! i)
       (filter (\<lambda>i. \<forall>j<i. comparisonKey w (uri (spliced ! j)) \<noteq> comparisonKey w (uri (spliced ! i)))
          [0..<length spliced])"
  using assms
  by (cases index)
     (simp_all add: newWorkspaceFolders_def distinct_by_first_occurrences getComparisonKey_def Let_def)

lemma newWorkspaceFolders_ABA:
  assumes "workspace_folders w = []"
    and "comparisonKey w (uri A') = comparisonKey w (uri A)"
    and "comparisonKey w (uri A) \<noteq> comparisonKey w (uri B)"
  shows "newWorkspaceFolders w [A, B, A'] index = [A, B]"
  using assms
  by (simp add: newWorkspaceFolders_def js_splice_insert_def distinct_by_def getComparisonKey_def)

lemma doAddFolders_outside_workspace:
  assumes "workbenchState w \<noteq> WORKSPACE"
  shows "doAddFolders w foldersToAdd index donotNotifyError =
     (if workbenchState w = EMPTY \<and> newWorkspaceFolders w foldersToAdd index = []
         \<or> workbenchState w = FOLDER \<and> length (newWorkspaceFolders w foldersToAdd index) = 1
      then ([], Inr ())
      else createAndEnterWorkspace w (newWorkspaceFolders w foldersToAdd index) None)"
  using assms
  by (simp add: doAddFolders_def Let_def resolve_def)

text \<open>C7: the list that the add path builds outside a workspace (the current folders with
  the new ones spliced in) is de-duplicated by the comparison key of the platform, keeping
  in order exactly the entries with no earlier entry of the same key; that list is what
  \<open>doAddFolders\<close> tests for a no-op and creates the workspace from. Adding
  \<open>[A, B, A]\<close> where no folder is open (\<open>A\<close> and \<open>B\<close> with different keys, the
  second \<open>A\<close> any entry with the key of the first) gives \<open>[A, B]\<close>.\<close>

theorem doAddFolders_keeps_first_occurrences:
  assumes "spliced =
      js_splice_insert (map (\<lambda>folder. \<lparr>uri = folder_uri folder, name = None\<rparr>) (workspace_folders w))
        (case index of Some i \<Rightarrow> i | None \<Rightarrow> int (length (workspace_folders w))) foldersToAdd"
    and "kept =
      map (\<lambda>i. spliced ! i)
        (filter (\<lambda>i. \<forall>j<i. comparisonKey w (uri (spliced ! j)) \<noteq> comparisonKey w (uri (spliced ! i)))
           [0..<length spliced])"
  shows "newWorkspaceFolders w foldersToAdd index = kept
   \<and> (workbenchState w \<noteq> WORKSPACE \<longrightarrow>
        doAddFolders w foldersToAdd index donotNotifyError =
          (if workbenchState w = EMPTY \<and> kept = [] \<or> workbenchState w = FOLDER \<and> length kept = 1
           then ([], Inr ())
           else createAndEnterWorkspace w kept None))
   \<and> (workspace_folders w = [] \<and> comparisonKey w (uri A') = comparisonKey w (uri A)
        \<and> comparisonKey w (uri A) \<noteq> comparisonKey w (uri B)
        \<longrightarrow> newWorkspaceFolders w [A, B, A'] index = [A, B])
   \<and> (workspace_folders w = [] \<and> comparisonKey w (uri A') = comparisonKey w (uri A)
        \<and> comparisonKey w (uri A) \<noteq> comparisonKey w (uri B) \<and> workbenchState w = EMPTY
        \<longrightarrow> doAddFolders w [A, B, A'] index donotNotifyError = createAndEnterWorkspace w [A, B] None)"
proof -
  have new: "newWorkspaceFolders w foldersToAdd index = kept"
    using assms by (simp add: newWorkspaceFolders_first_occurrences)
  show ?thesis
    using new
    by (auto simp: doAddFolders_outside_workspace newWorkspaceFolders_ABA)
qed

theorem doAddFolders_keeps_first_occurrences_witness:
  "newWorkspaceFolders empty_session
     [\<lparr>uri = ''/src/app'', name = None\<rparr>, \<lparr>uri = ''/src/lib'', name = None\<rparr>,
      \<lparr>uri = ''/src/app/'', name = Some ''again''\<rparr>] None
   = [\<lparr>uri = ''/src/app'', name = None\<rparr>, \<lparr>uri = ''/src/lib'', name = None\<rparr>]
   \<and> doAddFolders empty_session
     [\<lparr>uri = ''/src/app'', name = None\<rparr>, \<lparr>uri = ''/src/lib'', name = None\<rparr>,
      \<lparr>uri = ''/src/app/'', name = Some ''again''\<rparr>] None None
   = createAndEnterWorkspace empty_session
       [\<lparr>uri = ''/src/app'', name = None\<rparr>, \<lparr>uri = ''/src/lib'', name = None\<rparr>] None
   \<and> newWorkspaceFolders folder_session
     [\<lparr>uri = ''/src/lib'', name = None\<rparr>, \<lparr>uri = ''/src/app/'', name = None\<rparr>,
      \<lparr>uri = ''/src/lib/'', name = None\<rparr>] (Some 0)
   = [\<lparr>uri = ''/src/lib'', name = None\<rparr>, \<lparr>uri = ''/src/app/'', name = None\<rparr>]
   \<and> doAddFolders folder_session
     [\<lparr>uri = ''/src/lib'', name = None\<rparr>, \<lparr>uri = ''/src/app/'', name = None\<rparr>,
      \<lparr>uri = ''/src/lib/'', name = None\<rparr>] (Some 0) (Some True)
   = createAndEnterWorkspace folder_session
       [\<lparr>uri = ''/src/lib'', name = None\<rparr>, \<lparr>uri = ''/src/app/'', name = None\<rparr>] None"
proof -
  let ?A = "\<lparr>uri = ''/src/app'', name = None\<rparr>" and ?B = "\<lparr>uri = ''/src/lib'', name = None\<rparr>"
  let ?A' = "\<lparr>uri = ''/src/app/'', name = Some ''again''\<rparr>"
  let ?As = "\<lparr>uri = ''/src/app/'', name = None\<rparr>" and ?Bs = "\<lparr>uri = ''/src/lib/'', name = None\<rparr>"
  let ?spliced = "[?B, ?As, ?Bs, ?A]"
  have e: "workspace_folders empty_session = []" "workbenchState empty_session = EMPTY"
    by (simp_all add: empty_session_def)
  have k: "comparisonKey empty_session (uri ?A') = comparisonKey empty_session (uri ?A)"
    "comparisonKey empty_session (uri ?A) \<noteq> comparisonKey empty_session (uri ?B)"
    by (simp_all add: empty_session_def strip_trailing_separator_def)
  have f: "workbenchState folder_session = FOLDER"
    by (simp add: folder_session_def)
  have s: "?spliced =
      js_splice_insert (map (\<lambda>folder. \<lparr>uri = folder_uri folder, name = None\<rparr>) (workspace_folders folder_session))
        (case Some 0 of Some i \<Rightarrow> i | None \<Rightarrow> int (length (workspace_folders folder_session)))
        [?B, ?As, ?Bs]"
    by (simp add: js_splice_insert_def js_position_def folder_session_def)
  have ck: "comparisonKey folder_session = strip_trailing_separator"
    by (simp add: folder_session_def empty_session_def)
  have upt4: "[0..<4] = [0, 1, 2, 3::nat]"
    by (simp add: upt_rec)
  have kept: "[?B, ?As] =
      map (\<lambda>i. ?spliced ! i)
        (filter (\<lambda>i. \<forall>j<i. comparisonKey folder_session (uri (?spliced ! j))
                            \<noteq> comparisonKey folder_session (uri (?spliced ! i)))
           [0..<length ?spliced])"
    by (simp add: ck strip_trailing_separator_def upt4 less_Suc_eq numeral_eq_Suc
          all_conj_distrib)
  note general = doAddFolders_keeps_first_occurrences
                   [OF s kept, where donotNotifyError = "Some True" and A = ?A and A' = ?A and B = ?A]
  note aba = doAddFolders_keeps_first_occurrences
               [where w = empty_session and A = ?A and A' = ?A' and B = ?B and index = None
                  and foldersToAdd = "[]" and donotNotifyError = None, OF refl refl]
  from aba e k have "newWorkspaceFolders empty_session [?A, ?B, ?A'] None = [?A, ?B]"
    and "doAddFolders empty_session [?A, ?B, ?A'] None None
           = createAndEnterWorkspace empty_session [?A, ?B] None"
    by blast+
  moreover from general f have "newWorkspaceFolders folder_session [?B, ?As, ?Bs] (Some 0) = [?B, ?As]"
    and "doAddFolders folder_session [?B, ?As, ?Bs] (Some 0) (Some True)
           = createAndEnterWorkspace folder_session [?B, ?As] None"
    by simp_all
  ultimately show ?thesis by simp
qed

subsection \<open>Replacing the single folder\<close>

lemma includesSingle_sole_folder:
  assumes "workbenchState w = FOLDER" and "workspace_folders w = [F]"
    and "folder_uri F \<in> set ds"
  shows "includesSingleFolderWorkspace w ds = Inr True"
  using assms
  by (auto simp: includesSingleFolderWorkspace_def list_ex_iff isEqual_def)

lemma createAndEnterWorkspace_untitled:
  "createAndEnterWorkspace w folders None =
     then1 (call (CreateUntitledWorkspace folders (remoteAuthority w))
              (workspaceService_createUntitledWorkspace w folders (remoteAuthority w)))
       (\<lambda>untitledWorkspace. enterWorkspace w (configPath untitledWorkspace))"
  by (simp add: createAndEnterWorkspace_def)

text \<open>C2, as the claim states it: in the \<open>FOLDER\<close> state with the folder \<open>F\<close>,
  deleting \<open>F\<close> and adding \<open>[A, B]\<close> creates a workspace from the de-duplicated
  \<open>[A, B]\<close>, never with \<open>F\<close> in it. It fails for \<open>F = /src/app\<close>,
  \<open>A = /src/app\<close> and \<open>B = /src/app/\<close>: the de-duplicated list is \<open>[A]\<close>, and the
  workspace is created from \<open>[A, B]\<close>, which holds \<open>F\<close> twice by comparison key.\<close>

theorem updateFolders_replace_counterexample:
  "workbenchState folder_session = FOLDER
   \<and> map folder_uri (workspace_folders folder_session) = [''/src/app'']
   \<and> foldersToDelete_of folder_session 0 (Some 1) = [''/src/app'']
   \<and> distinct_by [\<lparr>uri = ''/src/app'', name = None\<rparr>, \<lparr>uri = ''/src/app/'', name = None\<rparr>]
        (\<lambda>folder. getComparisonKey folder_session (uri folder))
       = [\<lparr>uri = ''/src/app'', name = None\<rparr>]
   \<and> updateFolders folder_session 0 (Some 1)
       (Some [\<lparr>uri = ''/src/app'', name = None\<rparr>, \<lparr>uri = ''/src/app/'', name = None\<rparr>]) None
     = ([CreateUntitledWorkspace
           [\<lparr>uri = ''/src/app'', name = None\<rparr>, \<lparr>uri = ''/src/app/'', name = None\<rparr>] None,
         StopExtensionHost,
         HostEnterWorkspace ''/untitled/1/workspace.json'',
         StorageMigrate \<lparr>wid = ''entered'', configPath = ''/untitled/1/workspace.json''\<rparr>,
         JsonWrite ''/untitled/1/workspace.json'' ''settings'' [] True,
         BackupInitialize (Some ''/backups/entered''),
         ContextInitialize \<lparr>wid = ''entered'', configPath = ''/untitled/1/workspace.json''\<rparr>,
         StartExtensionHost],
        Inr ())"
  by (simp add: updateFolders_def foldersToDelete_of_def js_slice_def js_position_def
      includesSingleFolderWorkspace_def isEqual_def getComparisonKey_def
      strip_trailing_separator_def distinct_by_def
      createAndEnterWorkspace_def
      enterWorkspace_def enterWorkspace_attempt_def migrate_def migrateStorage_def
      migrateWorkspaceSettings_def doCopyWorkspaceSettings_def initialize_with_task_def
      startExtensionHost_def truthy_string_def then1_def then2_def call_def call_void_def
      folder_session_def empty_session_def)

text \<open>C2, amended: in the \<open>FOLDER\<close> state with the folder \<open>F\<close>, \<open>updateFolders\<close> with a
  range to delete that covers \<open>F\<close> and \<open>foldersToAdd = [A, B]\<close> asks for an untitled
  workspace with exactly the list \<open>[A, B]\<close> as it was passed, in argument order, and enters
  the workspace it gets. This path does not de-duplicate the list and does not take \<open>F\<close>
  out of it; when \<open>A\<close> and \<open>B\<close> differ by comparison key, the list is its own
  de-duplication.\<close>

theorem updateFolders_replaces_single_folder:
  assumes "workbenchState w = FOLDER"
    and "workspace_folders w = [F]"
    and "folder_uri F \<in> set (foldersToDelete_of w index deleteCount)"
  shows "updateFolders w index deleteCount (Some [A, B]) donotNotifyError =
           then1 (call (CreateUntitledWorkspace [A, B] (remoteAuthority w))
                    (workspaceService_createUntitledWorkspace w [A, B] (remoteAuthority w)))
             (\<lambda>untitledWorkspace. enterWorkspace w (configPath untitledWorkspace))
       \<and> (getComparisonKey w (uri A) \<noteq> getComparisonKey w (uri B)
           \<longrightarrow> distinct_by [A, B] (\<lambda>folder. getComparisonKey w (uri folder)) = [A, B])"
proof -
  have ne: "foldersToDelete_of w index deleteCount \<noteq> []"
    using assms(3) by auto
  have "includesSingleFolderWorkspace w (foldersToDelete_of w index deleteCount) = Inr True"
    using assms by (rule includesSingle_sole_folder)
  with ne show ?thesis
    by (simp add: updateFolders_def createAndEnterWorkspace_untitled distinct_by_def Let_def)
qed

theorem updateFolders_replaces_single_folder_witness:
  "updateFolders folder_session (-1) (Some 2)
     (Some [\<lparr>uri = ''/src/lib'', name = None\<rparr>, \<lparr>uri = ''/src/doc'', name = Some ''doc''\<rparr>]) None
   = ([CreateUntitledWorkspace
         [\<lparr>uri = ''/src/lib'', name = None\<rparr>, \<lparr>uri = ''/src/doc'', name = Some ''doc''\<rparr>] None,
       StopExtensionHost,
       HostEnterWorkspace ''/untitled/1/workspace.json'',
       StorageMigrate \<lparr>wid = ''entered'', configPath = ''/untitled/1/workspace.json''\<rparr>,
       JsonWrite ''/untitled/1/workspace.json'' ''settings'' [] True,
       BackupInitialize (Some ''/backups/entered''),
       ContextInitialize \<lparr>wid = ''entered'', configPath = ''/untitled/1/workspace.json''\<rparr>,
       StartExtensionHost],
      Inr ())"
proof -
  let ?F = "\<lparr>folder_uri = ''/src/app'', folder_name = ''app''\<rparr>"
  have f: "workbenchState folder_session = FOLDER" "workspace_folders folder_session = [?F]"
    by (simp_all add: folder_session_def)
  have d: "folder_uri ?F \<in> set (foldersToDelete_of folder_session (-1) (Some 2))"
    by (simp add: foldersToDelete_of_def js_slice_def js_position_def f)
  have e: "enterWorkspace folder_session ''/untitled/1/workspace.json''
     = ([StopExtensionHost,
       HostEnterWorkspace ''/untitled/1/workspace.json'',
       StorageMigrate \<lparr>wid = ''entered'', configPath = ''/untitled/1/workspace.json''\<rparr>,
       JsonWrite ''/untitled/1/workspace.json'' ''settings'' [] True,
       BackupInitialize (Some ''/backups/entered''),
       ContextInitialize \<lparr>wid = ''entered'', configPath = ''/untitled/1/workspace.json''\<rparr>,
       StartExtensionHost],
      Inr ())"
    by (simp add: enterWorkspace_def enterWorkspace_attempt_def migrate_def migrateStorage_def
        migrateWorkspaceSettings_def doCopyWorkspaceSettings_def initialize_with_task_def
        startExtensionHost_def truthy_string_def then1_def then2_def call_void_def
        folder_session_def empty_session_def)
  have c: "workspaceService_createUntitledWorkspace folder_session xs None
      = Inr \<lparr>wid = ''untitled-1'', configPath = ''/untitled/1/workspace.json''\<rparr>" for xs
    by (simp add: folder_session_def empty_session_def)
  have r: "remoteAuthority folder_session = None"
    by (simp add: folder_session_def empty_session_def)
  from updateFolders_replaces_single_folder
         [OF f d, of "\<lparr>uri = ''/src/lib'', name = None\<rparr>"
            "\<lparr>uri = ''/src/doc'', name = Some ''doc''\<rparr>" None]
  show ?thesis
    by (simp add: c r e then1_def then2_def call_def)
qed

subsection \<open>A delegated edit that fails\<close>

lemma handle_notifies:
  "handleWorkspaceConfigurationEditingError e =
     ((case code e of
         ERROR_INVALID_FILE \<Rightarrow>
           [NotificationPrompt ''Unable to write into workspace configuration file. Please open the file to correct errors/warnings in it and try again.'']
       | ERROR_FILE_DIRTY \<Rightarrow>
           [NotificationPrompt ''Unable to write into workspace configuration file because the file is dirty. Please save it and try again.'']
       | ERROR_OTHER n \<Rightarrow> [NotificationError (message e)]),
      Inr ())"
  by (simp add: handleWorkspaceConfigurationEditingError_def
      onInvalidWorkspaceConfigurationFileError_def onWorkspaceConfigurationFileDirtyError_def
      askToOpenWorkspaceConfigurationFile_def split: JSONEditingErrorCode.splits)

lemma on_edit_result_failure:
  "on_edit_result ev (Some e) flag =
     (if flag then ([ev], Inl (EditError e))
      else ([ev] @ fst (handleWorkspaceConfigurationEditingError e), Inr ()))"
  by (simp add: on_edit_result_def handle_notifies)

lemma addFolders_failure:
  assumes "workbenchState w = WORKSPACE" and "contextService_addFolders w fs None = Some e"
  shows "addFolders w fs flag =
     (if flag = Some True then ([ContextAddFolders fs None], Inl (EditError e))
      else ([ContextAddFolders fs None] @ fst (handleWorkspaceConfigurationEditingError e), Inr ()))"
  using assms
  by (cases flag) (auto simp: addFolders_def doAddFolders_def on_edit_result_failure default_false_def)

lemma removeFolders_failure:
  assumes "includesSingleFolderWorkspace w rs = Inr False" and "contextService_removeFolders w rs = Some e"
  shows "removeFolders w rs flag =
     (if flag = Some True then ([ContextRemoveFolders rs], Inl (EditError e))
      else ([ContextRemoveFolders rs] @ fst (handleWorkspaceConfigurationEditingError e), Inr ()))"
  using assms
  by (cases flag) (auto simp: removeFolders_def on_edit_result_failure default_false_def)

lemma updateFolders_add_failure:
  assumes "foldersToDelete_of w i dc = []" and "fs \<noteq> []"
    and "workbenchState w = WORKSPACE" and "contextService_addFolders w fs (Some i) = Some e"
  shows "updateFolders w i dc (Some fs) flag =
     (if flag = Some True then ([ContextAddFolders fs (Some i)], Inl (EditError e))
      else ([ContextAddFolders fs (Some i)] @ fst (handleWorkspaceConfigurationEditingError e), Inr ()))"
  using assms
  by (cases flag) (auto simp: updateFolders_def doAddFolders_def on_edit_result_failure default_false_def)

lemma updateFolders_delete_failure:
  assumes "foldersToDelete_of w i dc \<noteq> []"
    and "fa = None \<or> fa = Some []"
    and "includesSingleFolderWorkspace w (foldersToDelete_of w i dc) = Inr False"
    and "contextService_removeFolders w (foldersToDelete_of w i dc) = Some e"
  shows "updateFolders w i dc fa flag =
     ([ContextRemoveFolders (foldersToDelete_of w i dc)]
        @ fst (handleWorkspaceConfigurationEditingError e), Inr ())"
  using assms
  by (auto simp: updateFolders_def removeFolders_def on_edit_result_failure default_false_def)

lemma includesSingle_in_workspace:
  "workbenchState w = WORKSPACE \<Longrightarrow> includesSingleFolderWorkspace w ds = Inr False"
  by (simp add: includesSingleFolderWorkspace_def)

lemma updateFolders_both_failure:
  assumes "foldersToDelete_of w i dc \<noteq> []" and "fs \<noteq> []"
    and "workbenchState w = WORKSPACE"
    and "contextService_updateFolders w fs (foldersToDelete_of w i dc) (Some i) = Some e"
  shows "updateFolders w i dc (Some fs) flag =
     (if flag = Some True
      then ([ContextUpdateFolders fs (foldersToDelete_of w i dc) (Some i)], Inl (EditError e))
      else ([ContextUpdateFolders fs (foldersToDelete_of w i dc) (Some i)]
              @ fst (handleWorkspaceConfigurationEditingError e), Inr ()))"
  using assms
  by (cases flag)
     (auto simp: updateFolders_def doUpdateFolders_def includesSingle_in_workspace
        on_edit_result_failure default_false_def)

text \<open>C10: when the edit that \<open>addFolders\<close>, \<open>removeFolders\<close> or \<open>updateFolders\<close>
  delegates to the workspace fails with an error \<open>e\<close>: with \<open>donotNotifyError\<close> unset
  or \<open>false\<close> the method makes the delegated call, hands \<open>e\<close> to
  \<open>handleWorkspaceConfigurationEditingError\<close> and is fulfilled; with \<open>true\<close> it makes
  the delegated call only and is rejected with \<open>e\<close> itself (\<open>updateFolders\<close> with
  nothing to add hands the deletion to \<open>removeFolders\<close> without the flag, and notifies
  and is fulfilled then too). The handler is always fulfilled and does nothing but notify:
  a prompt for the two codes it knows, the message of the error otherwise.\<close>

theorem delegated_edit_failure:
  "(workbenchState w = WORKSPACE \<and> contextService_addFolders w fs None = Some e
      \<longrightarrow> addFolders w fs flag =
           (if flag = Some True then ([ContextAddFolders fs None], Inl (EditError e))
            else ([ContextAddFolders fs None] @ fst (handleWorkspaceConfigurationEditingError e),
                  Inr ())))
 \<and> (includesSingleFolderWorkspace w rs = Inr False \<and> contextService_removeFolders w rs = Some e
      \<longrightarrow> removeFolders w rs flag =
           (if flag = Some True then ([ContextRemoveFolders rs], Inl (EditError e))
            else ([ContextRemoveFolders rs] @ fst (handleWorkspaceConfigurationEditingError e),
                  Inr ())))
 \<and> (foldersToDelete_of w i dc = [] \<and> fs \<noteq> [] \<and> workbenchState w = WORKSPACE
        \<and> contextService_addFolders w fs (Some i) = Some e
      \<longrightarrow> updateFolders w i dc (Some fs) flag =
           (if flag = Some True then ([ContextAddFolders fs (Some i)], Inl (EditError e))
            else ([ContextAddFolders fs (Some i)]
                    @ fst (handleWorkspaceConfigurationEditingError e), Inr ())))
 \<and> (foldersToDelete_of w i dc = ds \<and> ds \<noteq> [] \<and> (fa = None \<or> fa = Some [])
        \<and> includesSingleFolderWorkspace w ds = Inr False
        \<and> contextService_removeFolders w ds = Some e
      \<longrightarrow> updateFolders w i dc fa flag =
           ([ContextRemoveFolders ds] @ fst (handleWorkspaceConfigurationEditingError e), Inr ()))
 \<and> (foldersToDelete_of w i dc = ds \<and> ds \<noteq> [] \<and> fs \<noteq> [] \<and> workbenchState w = WORKSPACE
        \<and> contextService_updateFolders w fs ds (Some i) = Some e
      \<longrightarrow> updateFolders w i dc (Some fs) flag =
           (if flag = Some True then ([ContextUpdateFolders fs ds (Some i)], Inl (EditError e))
            else ([ContextUpdateFolders fs ds (Some i)]
                    @ fst (handleWorkspaceConfigurationEditingError e), Inr ())))
 \<and> handleWorkspaceConfigurationEditingError e =
     ((case code e of
         ERROR_INVALID_FILE \<Rightarrow>
           [NotificationPrompt ''Unable to write into workspace configuration file. Please open the file to correct errors/warnings in it and try again.'']
       | ERROR_FILE_DIRTY \<Rightarrow>
           [NotificationPrompt ''Unable to write into workspace configuration file because the file is dirty. Please save it and try again.'']
       | ERROR_OTHER n \<Rightarrow> [NotificationError (message e)]),
      Inr ())"
proof (intro conjI impI)
  show "handleWorkspaceConfigurationEditingError e =
     ((case code e of
         ERROR_INVALID_FILE \<Rightarrow>
           [NotificationPrompt ''Unable to write into workspace configuration file. Please open the file to correct errors/warnings in it and try again.'']
       | ERROR_FILE_DIRTY \<Rightarrow>
           [NotificationPrompt ''Unable to write into workspace configuration file because the file is dirty. Please save it and try again.'']
       | ERROR_OTHER n \<Rightarrow> [NotificationError (message e)]),
      Inr ())"
    by (rule handle_notifies)
next
  assume "workbenchState w = WORKSPACE \<and> contextService_addFolders w fs None = Some e"
  then show "addFolders w fs flag =
           (if flag = Some True then ([ContextAddFolders fs None], Inl (EditError e))
            else ([ContextAddFolders fs None] @ fst (handleWorkspaceConfigurationEditingError e),
                  Inr ()))"
    by (intro addFolders_failure) auto
next
  assume "includesSingleFolderWorkspace w rs = Inr False \<and> contextService_removeFolders w rs = Some e"
  then show "removeFolders w rs flag =
           (if flag = Some True then ([ContextRemoveFolders rs], Inl (EditError e))
            else ([ContextRemoveFolders rs] @ fst (handleWorkspaceConfigurationEditingError e),
                  Inr ()))"
    by (intro removeFolders_failure) auto
next
  assume "foldersToDelete_of w i dc = [] \<and> fs \<noteq> [] \<and> workbenchState w = WORKSPACE
        \<and> contextService_addFolders w fs (Some i) = Some e"
  then show "updateFolders w i dc (Some fs) flag =
           (if flag = Some True then ([ContextAddFolders fs (Some i)], Inl (EditError e))
            else ([ContextAddFolders fs (Some i)]
                    @ fst (handleWorkspaceConfigurationEditingError e), Inr ()))"
    by (intro updateFolders_add_failure) auto
next
  assume a: "foldersToDelete_of w i dc = ds \<and> ds \<noteq> [] \<and> (fa = None \<or> fa = Some [])
        \<and> includesSingleFolderWorkspace w ds = Inr False
        \<and> contextService_removeFolders w ds = Some e"
  then have "updateFolders w i dc fa flag =
     ([ContextRemoveFolders (foldersToDelete_of w i dc)]
        @ fst (handleWorkspaceConfigurationEditingError e), Inr ())"
    by (intro updateFolders_delete_failure) auto
  with a show "updateFolders w i dc fa flag =
           ([ContextRemoveFolders ds] @ fst (handleWorkspaceConfigurationEditingError e), Inr ())"
    by simp
next
  assume a: "foldersToDelete_of w i dc = ds \<and> ds \<noteq> [] \<and> fs \<noteq> [] \<and> workbenchState w = WORKSPACE
        \<and> contextService_updateFolders w fs ds (Some i) = Some e"
  then have "updateFolders w i dc (Some fs) flag =
     (if flag = Some True
      then ([ContextUpdateFolders fs (foldersToDelete_of w i dc) (Some i)], Inl (EditError e))
      else ([ContextUpdateFolders fs (foldersToDelete_of w i dc) (Some i)]
              @ fst (handleWorkspaceConfigurationEditingError e), Inr ()))"
    by (intro updateFolders_both_failure) auto
  with a show "updateFolders w i dc (Some fs) flag =
           (if flag = Some True then ([ContextUpdateFolders fs ds (Some i)], Inl (EditError e))
            else ([ContextUpdateFolders fs ds (Some i)]
                    @ fst (handleWorkspaceConfigurationEditingError e), Inr ()))"
    by simp
qed

theorem delegated_edit_failure_witness:
  "addFolders (workspace_session\<lparr>contextService_addFolders :=
            (\<lambda>_ _. Some \<lparr>code = ERROR_FILE_DIRTY, message = ''dirty''\<rparr>)\<rparr>)
          [\<lparr>uri = ''/src/doc'', name = None\<rparr>] None
     = ([ContextAddFolders [\<lparr>uri = ''/src/doc'', name = None\<rparr>] None,
         NotificationPrompt ''Unable to write into workspace configuration file because the file is dirty. Please save it and try again.''],
        Inr ())
   \<and> addFolders (workspace_session\<lparr>contextService_addFolders :=
            (\<lambda>_ _. Some \<lparr>code = ERROR_FILE_DIRTY, message = ''dirty''\<rparr>)\<rparr>)
          [\<lparr>uri = ''/src/doc'', name = None\<rparr>] (Some True)
     = ([ContextAddFolders [\<lparr>uri = ''/src/doc'', name = None\<rparr>] None],
        Inl (EditError \<lparr>code = ERROR_FILE_DIRTY, message = ''dirty''\<rparr>))
   \<and> removeFolders (workspace_session\<lparr>contextService_removeFolders :=
            (\<lambda>_. Some \<lparr>code = ERROR_INVALID_FILE, message = ''invalid''\<rparr>)\<rparr>)
          [''/src/lib''] (Some False)
     = ([ContextRemoveFolders [''/src/lib''],
         NotificationPrompt ''Unable to write into workspace configuration file. Please open the file to correct errors/warnings in it and try again.''],
        Inr ())
   \<and> updateFolders (workspace_session\<lparr>contextService_addFolders :=
            (\<lambda>_ _. Some \<lparr>code = ERROR_FILE_DIRTY, message = ''dirty''\<rparr>)\<rparr>)
          2 None (Some [\<lparr>uri = ''/src/doc'', name = None\<rparr>]) None
     = ([ContextAddFolders [\<lparr>uri = ''/src/doc'', name = None\<rparr>] (Some 2),
         NotificationPrompt ''Unable to write into workspace configuration file because the file is dirty. Please save it and try again.''],
        Inr ())
   \<and> updateFolders (workspace_session\<lparr>contextService_removeFolders :=
            (\<lambda>_. Some \<lparr>code = ERROR_INVALID_FILE, message = ''invalid''\<rparr>)\<rparr>)
          1 (Some 1) None (Some True)
     = ([ContextRemoveFolders [''/src/lib''],
         NotificationPrompt ''Unable to write into workspace configuration file. Please open the file to correct errors/warnings in it and try again.''],
        Inr ())
   \<and> updateFolders (workspace_session\<lparr>contextService_updateFolders :=
            (\<lambda>_ _ _. Some \<lparr>code = ERROR_OTHER 7, message = ''disk full''\<rparr>)\<rparr>)
          1 (Some 1) (Some [\<lparr>uri = ''/src/doc'', name = None\<rparr>]) (Some True)
     = ([ContextUpdateFolders [\<lparr>uri = ''/src/doc'', name = None\<rparr>] [''/src/lib''] (Some 1)],
        Inl (EditError \<lparr>code = ERROR_OTHER 7, message = ''disk full''\<rparr>))
   \<and> updateFolders (workspace_session\<lparr>contextService_updateFolders :=
            (\<lambda>_ _ _. Some \<lparr>code = ERROR_OTHER 7, message = ''disk full''\<rparr>)\<rparr>)
          1 (Some 1) (Some [\<lparr>uri = ''/src/doc'', name = None\<rparr>]) (Some False)
     = ([ContextUpdateFolders [\<lparr>uri = ''/src/doc'', name = None\<rparr>] [''/src/lib''] (Some 1),
         NotificationError ''disk full''],
        Inr ())"
proof -
  let ?dirty = "\<lparr>code = ERROR_FILE_DIRTY, message = ''dirty''\<rparr>"
  let ?invalid = "\<lparr>code = ERROR_INVALID_FILE, message = ''invalid''\<rparr>"
  let ?full = "\<lparr>code = ERROR_OTHER 7, message = ''disk full''\<rparr>"
  let ?wa = "workspace_session\<lparr>contextService_addFolders := (\<lambda>_ _. Some ?dirty)\<rparr>"
  let ?wr = "workspace_session\<lparr>contextService_removeFolders := (\<lambda>_. Some ?invalid)\<rparr>"
  let ?wu = "workspace_session\<lparr>contextService_updateFolders := (\<lambda>_ _ _. Some ?full)\<rparr>"
  let ?doc = "[\<lparr>uri = ''/src/doc'', name = None\<rparr>]"
  have st: "workbenchState ?wa = WORKSPACE" "workbenchState ?wr = WORKSPACE"
    "workbenchState ?wu = WORKSPACE"
    by (simp_all add: workspace_session_def)
  have inc: "includesSingleFolderWorkspace ?wr [''/src/lib''] = Inr False"
    by (simp add: includesSingleFolderWorkspace_def st)
  have d0: "foldersToDelete_of ?wa 2 None = []"
    by (simp add: foldersToDelete_of_def)
  have d1: "foldersToDelete_of ?wr 1 (Some 1) = [''/src/lib'']"
    "foldersToDelete_of ?wu 1 (Some 1) = [''/src/lib'']"
    by (simp_all add: foldersToDelete_of_def js_slice_def js_position_def workspace_session_def)
  note a1 = delegated_edit_failure [of ?wa ?doc ?dirty None "[]" 2 None "[]" None]
  note a2 = delegated_edit_failure [of ?wa ?doc ?dirty "Some True" "[]" 2 None "[]" None]
  note r1 = delegated_edit_failure [of ?wr ?doc ?invalid "Some False" "[''/src/lib'']" 1 "Some 1" "[''/src/lib'']" None]
  note r2 = delegated_edit_failure [of ?wr ?doc ?invalid "Some True" "[''/src/lib'']" 1 "Some 1" "[''/src/lib'']" None]
  note u1 = delegated_edit_failure [of ?wu ?doc ?full "Some True" "[]" 1 "Some 1" "[''/src/lib'']" None]
  note u2 = delegated_edit_failure [of ?wu ?doc ?full "Some False" "[]" 1 "Some 1" "[''/src/lib'']" None]
  from a1 a2 r1 r2 u1 u2 show ?thesis
    by (simp add: st inc d0 d1)
qed

subsection \<open>The prompt before shutdown\<close>

lemma guard_prompts:
  assumes "reason = LOAD \<or> reason = CLOSE"
    and "getCurrentWorkspaceIdentifier w = Some wsid"
    and "isEqualOrParent w (configPath wsid) (untitledWorkspacesHome w)"
    and "windowsService_getWindowCount w = Inr n"
    and "\<not> (reason = CLOSE \<and> \<not> isMacintosh w \<and> n = 1)"
    and "dialogService_show w = Inr res"
  shows "saveUntitedBeforeShutdown w reason =
           Some ([GetWindowCount, DialogShow (buttons w) (js_indexOf (buttons w) CANCEL)]
                   @ fst (on_dialog_choice w wsid res),
                 snd (on_dialog_choice w wsid res))"
  using assms
  by (auto simp: saveUntitedBeforeShutdown_def then1_def then2_def call_def split: prod.splits)

lemma save_choice_no_target:
  "fileDialogService_showSaveDialog w = Inr None \<Longrightarrow> on_save_choice w wsid = ([ShowSaveDialog], Inr True)"
  by (simp add: on_save_choice_def pickNewWorkspacePath_def then1_def then2_def call_def resolve_def)

lemma save_choice_saved:
  assumes "fileDialogService_showSaveDialog w = Inr (Some p)"
    and "snd (saveWorkspaceAs w wsid p) = Inr ()"
    and "workspaceService_getWorkspaceIdentifier w p = Inr new"
  shows "on_save_choice w wsid =
           ([ShowSaveDialog] @ fst (saveWorkspaceAs w wsid p)
              @ [GetWorkspaceIdentifier p,
                 AddRecentlyOpened (labelService_getWorkspaceLabel w new) new,
                 DeleteUntitledWorkspace wsid],
            Inr False)"
  using assms
  by (cases "saveWorkspaceAs w wsid p")
     (simp add: on_save_choice_def pickNewWorkspacePath_def then1_def then2_def call_def)

lemma save_choice_failed:
  assumes "fileDialogService_showSaveDialog w = Inr (Some p)"
    and "snd (saveWorkspaceAs w wsid p) = Inl e"
  shows "on_save_choice w wsid = ([ShowSaveDialog] @ fst (saveWorkspaceAs w wsid p), Inr False)"
  using assms
  by (cases "saveWorkspaceAs w wsid p")
     (simp add: on_save_choice_def pickNewWorkspacePath_def then1_def then2_def call_def resolve_def)

text \<open>C4: when the guard prompts over an untitled workspace (the window is closing or
  loading, the window count is delivered and the short cut for the last window does not
  apply, the dialog returns the index of a button): Cancel gives \<open>true\<close>; Don't Save
  gives \<open>false\<close> after deleting the untitled workspace; Save with no location picked gives
  \<open>true\<close>; Save with a location picked, the save done and the new identifier resolved gives
  \<open>false\<close> after the new identifier is added to the recently opened and the untitled
  workspace is deleted; Save with a save that fails gives \<open>false\<close>.\<close>

theorem saveUntitedBeforeShutdown_choices:
  assumes "reason = LOAD \<or> reason = CLOSE"
    and "getCurrentWorkspaceIdentifier w = Some wsid"
    and "isEqualOrParent w (configPath wsid) (untitledWorkspacesHome w)"
    and "windowsService_getWindowCount w = Inr n"
    and "\<not> (reason = CLOSE \<and> \<not> isMacintosh w \<and> n = 1)"
    and "dialogService_show w = Inr res"
    and "js_index (buttons w) res = Some choice"
  shows "\<exists>t r. saveUntitedBeforeShutdown w reason =
                  Some ([GetWindowCount, DialogShow (buttons w) (js_indexOf (buttons w) CANCEL)] @ t, r)
     \<and> (choice = CANCEL \<longrightarrow> r = Inr True \<and> t = [])
     \<and> (choice = DONT_SAVE \<longrightarrow> r = Inr False \<and> t = [DeleteUntitledWorkspace wsid])
     \<and> (choice = SAVE \<and> fileDialogService_showSaveDialog w = Inr None
           \<longrightarrow> r = Inr True \<and> t = [ShowSaveDialog])
     \<and> (\<forall>p new. choice = SAVE \<and> fileDialogService_showSaveDialog w = Inr (Some p)
             \<and> snd (saveWorkspaceAs w wsid p) = Inr ()
             \<and> workspaceService_getWorkspaceIdentifier w p = Inr new
           \<longrightarrow> r = Inr False
             \<and> t = [ShowSaveDialog] @ fst (saveWorkspaceAs w wsid p)
                   @ [GetWorkspaceIdentifier p,
                      AddRecentlyOpened (labelService_getWorkspaceLabel w new) new,
                      DeleteUntitledWorkspace wsid])
     \<and> (\<forall>p e. choice = SAVE \<and> fileDialogService_showSaveDialog w = Inr (Some p)
             \<and> snd (saveWorkspaceAs w wsid p) = Inl e
           \<longrightarrow> r = Inr False \<and> t = [ShowSaveDialog] @ fst (saveWorkspaceAs w wsid p))"
proof -
  let ?t = "fst (on_dialog_choice w wsid res)" and ?r = "snd (on_dialog_choice w wsid res)"
  have shape: "saveUntitedBeforeShutdown w reason =
      Some ([GetWindowCount, DialogShow (buttons w) (js_indexOf (buttons w) CANCEL)] @ ?t, ?r)"
    using assms(1-6) by (rule guard_prompts)
  have choice: "on_dialog_choice w wsid res =
      (case choice of CANCEL \<Rightarrow> resolve True
       | DONT_SAVE \<Rightarrow> ([DeleteUntitledWorkspace wsid], Inr False)
       | SAVE \<Rightarrow> on_save_choice w wsid)"
    using assms(7) by (simp add: on_dialog_choice_def)
  have "choice = CANCEL \<longrightarrow> ?r = Inr True \<and> ?t = []"
    by (simp add: choice resolve_def)
  moreover have "choice = DONT_SAVE \<longrightarrow> ?r = Inr False \<and> ?t = [DeleteUntitledWorkspace wsid]"
    by (simp add: choice)
  moreover have "choice = SAVE \<and> fileDialogService_showSaveDialog w = Inr None
           \<longrightarrow> ?r = Inr True \<and> ?t = [ShowSaveDialog]"
    by (simp add: choice save_choice_no_target)
  moreover have "\<forall>p new. choice = SAVE \<and> fileDialogService_showSaveDialog w = Inr (Some p)
             \<and> snd (saveWorkspaceAs w wsid p) = Inr ()
             \<and> workspaceService_getWorkspaceIdentifier w p = Inr new
           \<longrightarrow> ?r = Inr False
             \<and> ?t = [ShowSaveDialog] @ fst (saveWorkspaceAs w wsid p)
                   @ [GetWorkspaceIdentifier p,
                      AddRecentlyOpened (labelService_getWorkspaceLabel w new) new,
                      DeleteUntitledWorkspace wsid]"
    by (simp add: choice save_choice_saved)
  moreover have "\<forall>p e. choice = SAVE \<and> fileDialogService_showSaveDialog w = Inr (Some p)
             \<and> snd (saveWorkspaceAs w wsid p) = Inl e
           \<longrightarrow> ?r = Inr False \<and> ?t = [ShowSaveDialog] @ fst (saveWorkspaceAs w wsid p)"
    by (simp add: choice save_choice_failed)
  ultimately show ?thesis
    using shape by blast
qed

theorem saveUntitedBeforeShutdown_choices_witness:
  "saveUntitedBeforeShutdown (untitled_session\<lparr>dialogService_show := Inr 1\<rparr>) CLOSE
     = Some ([GetWindowCount, DialogShow [DONT_SAVE, CANCEL, SAVE] 1], Inr True)
   \<and> saveUntitedBeforeShutdown (untitled_session\<lparr>dialogService_show := Inr 0\<rparr>) LOAD
     = Some ([GetWindowCount, DialogShow [DONT_SAVE, CANCEL, SAVE] 1,
              DeleteUntitledWorkspace \<lparr>wid = ''untitled-7'', configPath = ''/untitled/7/workspace.json''\<rparr>],
             Inr False)
   \<and> saveUntitedBeforeShutdown (untitled_session\<lparr>dialogService_show := Inr 2\<rparr>) CLOSE
     = Some ([GetWindowCount, DialogShow [DONT_SAVE, CANCEL, SAVE] 1, ShowSaveDialog], Inr True)
   \<and> saveUntitedBeforeShutdown
       (untitled_session\<lparr>dialogService_show := Inr 2,
          fileDialogService_showSaveDialog := Inr (Some ''/home/u/mine.code-workspace'')\<rparr>) CLOSE
     = Some ([GetWindowCount, DialogShow [DONT_SAVE, CANCEL, SAVE] 1, ShowSaveDialog,
              ResolveContent ''/untitled/7/workspace.json'',
              CreateFile ''/home/u/mine.code-workspace'' ''{}'' True,
              GetWorkspaceIdentifier ''/home/u/mine.code-workspace'',
              AddRecentlyOpened ''/home/u/mine.code-workspace''
                \<lparr>wid = ''saved'', configPath = ''/home/u/mine.code-workspace''\<rparr>,
              DeleteUntitledWorkspace \<lparr>wid = ''untitled-7'', configPath = ''/untitled/7/workspace.json''\<rparr>],
             Inr False)
   \<and> saveUntitedBeforeShutdown
       (untitled_session\<lparr>dialogService_show := Inr 2,
          fileDialogService_showSaveDialog := Inr (Some ''/home/u/mine.code-workspace''),
          fileSystemService_createFile := (\<lambda>_ _. Some (External ''EACCES''))\<rparr>) CLOSE
     = Some ([GetWindowCount, DialogShow [DONT_SAVE, CANCEL, SAVE] 1, ShowSaveDialog,
              ResolveContent ''/untitled/7/workspace.json'',
              CreateFile ''/home/u/mine.code-workspace'' ''{}'' True],
             Inr False)"
proof -
  let ?id = "\<lparr>wid = ''untitled-7'', configPath = ''/untitled/7/workspace.json''\<rparr>"
  let ?p = "''/home/u/mine.code-workspace''"
  let ?cancel = "untitled_session\<lparr>dialogService_show := Inr 1\<rparr>"
  let ?dont = "untitled_session\<lparr>dialogService_show := Inr 0\<rparr>"
  let ?none = "untitled_session\<lparr>dialogService_show := Inr 2\<rparr>"
  let ?save = "untitled_session\<lparr>dialogService_show := Inr 2,
          fileDialogService_showSaveDialog := Inr (Some ?p)\<rparr>"
  let ?fail = "untitled_session\<lparr>dialogService_show := Inr 2,
          fileDialogService_showSaveDialog := Inr (Some ?p),
          fileSystemService_createFile := (\<lambda>_ _. Some (External ''EACCES''))\<rparr>"
  note defs = untitled_session_def empty_session_def getCurrentWorkspaceIdentifier_def
    buttons_def js_index_def
  have c: "saveUntitedBeforeShutdown ?cancel CLOSE
     = Some ([GetWindowCount, DialogShow [DONT_SAVE, CANCEL, SAVE] 1], Inr True)"
    using saveUntitedBeforeShutdown_choices [of CLOSE ?cancel ?id 2 1 CANCEL]
    by (simp add: defs)
  have d: "saveUntitedBeforeShutdown ?dont LOAD
     = Some ([GetWindowCount, DialogShow [DONT_SAVE, CANCEL, SAVE] 1, DeleteUntitledWorkspace ?id], Inr False)"
    using saveUntitedBeforeShutdown_choices [of LOAD ?dont ?id 2 0 DONT_SAVE]
    by (simp add: defs)
  have n: "saveUntitedBeforeShutdown ?none CLOSE
     = Some ([GetWindowCount, DialogShow [DONT_SAVE, CANCEL, SAVE] 1, ShowSaveDialog], Inr True)"
    using saveUntitedBeforeShutdown_choices [of CLOSE ?none ?id 2 2 SAVE]
    by (simp add: defs)
  have sa: "saveWorkspaceAs ?save ?id ?p
      = ([ResolveContent ''/untitled/7/workspace.json'', CreateFile ?p ''{}'' True], Inr ())"
    by (simp add: saveWorkspaceAs_def isEqual_def getComparisonKey_def strip_trailing_separator_def
        then1_def then2_def call_def call_void_def resolve_def defs)
  have s: "saveUntitedBeforeShutdown ?save CLOSE
     = Some ([GetWindowCount, DialogShow [DONT_SAVE, CANCEL, SAVE] 1, ShowSaveDialog,
              ResolveContent ''/untitled/7/workspace.json'', CreateFile ?p ''{}'' True,
              GetWorkspaceIdentifier ?p,
              AddRecentlyOpened ?p \<lparr>wid = ''saved'', configPath = ?p\<rparr>,
              DeleteUntitledWorkspace ?id], Inr False)"
  proof -
    have g: "getCurrentWorkspaceIdentifier ?save = Some ?id"
      "isEqualOrParent ?save (configPath ?id) (untitledWorkspacesHome ?save)"
      "windowsService_getWindowCount ?save = Inr 2"
      "dialogService_show ?save = Inr 2"
      "js_index (buttons ?save) 2 = Some SAVE"
      by (simp_all add: defs)
    have k: "fileDialogService_showSaveDialog ?save = Inr (Some ?p)"
      "workspaceService_getWorkspaceIdentifier ?save ?p = Inr \<lparr>wid = ''saved'', configPath = ?p\<rparr>"
      "labelService_getWorkspaceLabel ?save \<lparr>wid = ''saved'', configPath = ?p\<rparr> = ?p"
      "buttons ?save = [DONT_SAVE, CANCEL, SAVE]"
      by (simp_all add: defs)
    from saveUntitedBeforeShutdown_choices [of CLOSE ?save ?id 2 2 SAVE] g
    obtain t r where eq: "saveUntitedBeforeShutdown ?save CLOSE =
          Some ([GetWindowCount, DialogShow (buttons ?save) (js_indexOf (buttons ?save) CANCEL)] @ t, r)"
      and saved: "\<forall>p new. SAVE = SAVE \<and> fileDialogService_showSaveDialog ?save = Inr (Some p)
             \<and> snd (saveWorkspaceAs ?save ?id p) = Inr ()
             \<and> workspaceService_getWorkspaceIdentifier ?save p = Inr new
           \<longrightarrow> r = Inr False
             \<and> t = [ShowSaveDialog] @ fst (saveWorkspaceAs ?save ?id p)
                   @ [GetWorkspaceIdentifier p,
                      AddRecentlyOpened (labelService_getWorkspaceLabel ?save new) new,
                      DeleteUntitledWorkspace ?id]"
      by auto
    from saved k sa have "r = Inr False \<and> t = [ShowSaveDialog] @ fst (saveWorkspaceAs ?save ?id ?p)
                   @ [GetWorkspaceIdentifier ?p,
                      AddRecentlyOpened ?p \<lparr>wid = ''saved'', configPath = ?p\<rparr>,
                      DeleteUntitledWorkspace ?id]"
      by (metis snd_conv)
    with eq show ?thesis by (simp add: k sa)
  qed
  have fa: "saveWorkspaceAs ?fail ?id ?p
      = ([ResolveContent ''/untitled/7/workspace.json'', CreateFile ?p ''{}'' True],
         Inl (External ''EACCES''))"
    by (simp add: saveWorkspaceAs_def isEqual_def getComparisonKey_def strip_trailing_separator_def
        then1_def then2_def call_def call_void_def resolve_def reject_def defs)
  have f: "saveUntitedBeforeShutdown ?fail CLOSE
     = Some ([GetWindowCount, DialogShow [DONT_SAVE, CANCEL, SAVE] 1, ShowSaveDialog,
              ResolveContent ''/untitled/7/workspace.json'', CreateFile ?p ''{}'' True], Inr False)"
  proof -
    have g: "getCurrentWorkspaceIdentifier ?fail = Some ?id"
      "isEqualOrParent ?fail (configPath ?id) (untitledWorkspacesHome ?fail)"
      "windowsService_getWindowCount ?fail = Inr 2"
      "dialogService_show ?fail = Inr 2"
      "js_index (buttons ?fail) 2 = Some SAVE"
      by (simp_all add: defs)
    have k: "fileDialogService_showSaveDialog ?fail = Inr (Some ?p)"
      "buttons ?fail = [DONT_SAVE, CANCEL, SAVE]"
      by (simp_all add: defs)
    from saveUntitedBeforeShutdown_choices [of CLOSE ?fail ?id 2 2 SAVE] g
    obtain t r where eq: "saveUntitedBeforeShutdown ?fail CLOSE =
          Some ([GetWindowCount, DialogShow (buttons ?fail) (js_indexOf (buttons ?fail) CANCEL)] @ t, r)"
      and failed: "\<forall>p e. SAVE = SAVE \<and> fileDialogService_showSaveDialog ?fail = Inr (Some p)
             \<and> snd (saveWorkspaceAs ?fail ?id p) = Inl e
           \<longrightarrow> r = Inr False \<and> t = [ShowSaveDialog] @ fst (saveWorkspaceAs ?fail ?id p)"
      by auto
    from failed k fa have "r = Inr False \<and> t = [ShowSaveDialog] @ fst (saveWorkspaceAs ?fail ?id ?p)"
      by (metis snd_conv)
    with eq show ?thesis by (simp add: k fa)
  qed
  from c d n s f show ?thesis by simp
qed

end
